theory Spec2Isabelle
  imports Main "HOL-Library.Word"
begin

unbundle bit_operations_syntax

section \<open>fsalloc: memory allocation on file system\<close>

text \<open>
  A shallow embedding of \<^verbatim>\<open>src/fsalloc.h\<close>, \<^verbatim>\<open>src/fsalloc.cc\<close>, \<^verbatim>\<open>src/cpu_traits.h\<close> and
  \<^verbatim>\<open>src/db_wrapper.cc\<close>. The globals of \<^verbatim>\<open>fsalloc.cc\<close> and the parts of the operating
  system and of the database that the code talks to are the fields of one record, passed
  through every function. An exception of the source is the left injection of the result.
\<close>

subsection \<open>Machine types and constants\<close>

type_synonym addr = "64 word"   \<comment> \<open>\<^verbatim>\<open>void *\<close>, \<^verbatim>\<open>intptr_t\<close>, \<^verbatim>\<open>size_t\<close> on x86-64\<close>
type_synonym u32 = "32 word"    \<comment> \<open>\<^verbatim>\<open>uint32_t\<close>; also the bits of an \<^verbatim>\<open>int\<close>\<close>
type_synonym u64 = "64 word"    \<comment> \<open>\<^verbatim>\<open>unsigned long long\<close>, \<^verbatim>\<open>greg_t\<close>\<close>
type_synonym byte = "8 word"

definition PROT_NONE :: u32 where "PROT_NONE = 0"
definition PROT_READ :: u32 where "PROT_READ = 1"
definition PROT_WRITE :: u32 where "PROT_WRITE = 2"

definition MAP_FAILED :: addr where "MAP_FAILED = - 1"

definition REG_ERR :: nat where "REG_ERR = 19"

subsection \<open>cpu_traits.h\<close>

text \<open>
  The part of \<^verbatim>\<open>ucontext_t\<close> that matters: the general registers of the machine context,
  an array indexed by register number, and the other fields, which the code never reads.
\<close>

record mcontext_t =
  gregs :: "nat \<Rightarrow> u64"
  fpregs :: addr

record ucontext_t =
  uc_flags :: u64
  uc_link :: addr
  uc_mcontext :: mcontext_t
  uc_sigmask :: u64

definition get_mprotect_flags :: "ucontext_t \<Rightarrow> u32" where
  "get_mprotect_flags context =
     (if gregs (uc_mcontext context) REG_ERR AND 2 \<noteq> 0
      then PROT_READ OR PROT_WRITE
      else PROT_READ)"

subsection \<open>fsalloc.h: alignment\<close>

text \<open>
  \<^verbatim>\<open>ffs\<close> of the C library: one plus the index of the least significant set bit, 0 for 0.
\<close>

definition ffs :: "u32 \<Rightarrow> nat" where
  "ffs i = (case find (bit i) [0..<32] of None \<Rightarrow> 0 | Some n \<Rightarrow> Suc n)"

text \<open>
  \<^verbatim>\<open>kPagesize\<close> is \<^verbatim>\<open>getpagesize()\<close>, an \<^verbatim>\<open>int\<close> fixed when the program starts; it is the
  first argument here. The shifts are those of a signed \<^verbatim>\<open>intptr_t\<close>: the right shift
  is arithmetic. (\<^verbatim>\<open>ffs(kPagesize) - 1\<close> is negative for a page size of 0, where the C
  shift has no meaning; the model shifts by 0 there.)
\<close>

definition pagealign :: "u32 \<Rightarrow> addr \<Rightarrow> addr" where
  "pagealign kPagesize ptr =
     (let pageshift = ffs kPagesize - 1
      in push_bit pageshift (signed_drop_bit pageshift ptr))"

text \<open>
  In \<^verbatim>\<open>size + kPagesize - 1\<close> the \<^verbatim>\<open>int\<close> is converted to \<^verbatim>\<open>unsigned\<close>: the whole
  expression is computed modulo \<open>2 ^ 32\<close>, with unsigned division.
\<close>

definition sizealign :: "u32 \<Rightarrow> u32 \<Rightarrow> u32" where
  "sizealign kPagesize sz = ((sz + kPagesize - 1) div kPagesize) * kPagesize"

subsection \<open>fsalloc.h: data\<close>

text \<open>\<^verbatim>\<open>db::handle_t\<close> is \<^verbatim>\<open>DB_HEAP_RID\<close>: a 32-bit page number and a 16-bit index.\<close>

record handle_t =
  pgno :: u32
  indx :: "16 word"

record Info =
  rid :: handle_t
  size :: u32
  dirty :: bool
  cached :: bool

definition invalid_handle :: handle_t where
  "invalid_handle = \<lparr>pgno = - 1, indx = - 1\<rparr>"

definition emptyInfo :: "u32 \<Rightarrow> Info" where
  "emptyInfo s = \<lparr>rid = invalid_handle, size = s, dirty = False, cached = True\<rparr>"

definition valid :: "Info \<Rightarrow> bool" where
  "valid info \<longleftrightarrow> pgno (rid info) \<noteq> pgno invalid_handle \<or> indx (rid info) \<noteq> indx invalid_handle"

text \<open>
  The value-initialised \<^verbatim>\<open>Info\<close> that \<^verbatim>\<open>unordered_map::operator[]\<close> inserts for a key
  that is not in the map: every member is zero.
\<close>

definition zeroInfo :: Info where
  "zeroInfo = \<lparr>rid = \<lparr>pgno = 0, indx = 0\<rparr>, size = 0, dirty = False, cached = False\<rparr>"

record Stats =
  allocs :: u64
  frees :: u64
  cache_hits :: u64
  writebacks :: u64

subsection \<open>The world outside the module\<close>

text \<open>Every call that leaves the module is recorded, in order.\<close>

datatype event =
    Mmap addr addr                \<comment> \<open>length, returned address\<close>
  | Mprotect addr addr u32        \<comment> \<open>address, length, flags\<close>
  | Madvise addr addr             \<comment> \<open>address, length; the advice is \<^verbatim>\<open>MADV_DONTNEED\<close>\<close>
  | Munmap addr addr              \<comment> \<open>address, length\<close>
  | DbGet handle_t
  | DbAppend addr u32 handle_t    \<comment> \<open>\<^verbatim>\<open>db::put(element, size)\<close> and the key it returned\<close>
  | DbPut addr u32 handle_t       \<comment> \<open>\<^verbatim>\<open>db::put(element, size, rid)\<close>\<close>
  | DbDel handle_t
  | Memcpy addr u32               \<comment> \<open>destination, length\<close>
  | DefaultHandler u32            \<comment> \<open>\<^verbatim>\<open>default_sigsegv.sa_handler(sig)\<close>\<close>

text \<open>
  What calling the handler saved by \<^verbatim>\<open>sigaction\<close> does: it comes back to its caller, or it
  ends the process (as the default action of \<^verbatim>\<open>SIGSEGV\<close> does).
\<close>

datatype sighandler = Returns | Terminates

datatype error =
    RuntimeError string      \<comment> \<open>\<^verbatim>\<open>throw std::runtime_error(...)\<close>\<close>
  | AssertionFailed          \<comment> \<open>\<^verbatim>\<open>assert\<close>\<close>
  | ProcessTerminated        \<comment> \<open>the chained handler did not return\<close>
  | AccessFault              \<comment> \<open>memory touched without permission inside a call\<close>

text \<open>
  The first five fields are the globals of \<^verbatim>\<open>fsalloc.cc\<close> and \<^verbatim>\<open>kPagesize\<close>. The others
  are the environment, as far as this module can see it:
  \<^item> \<open>vm\<close>: the mappings made by \<^verbatim>\<open>mmap\<close> in \<^verbatim>\<open>fsalloc\<close> and not yet unmapped, each with
    its current protection (the module changes the protection of a whole mapping or of
    nothing);
  \<^item> \<open>mem\<close>: the bytes of memory;
  \<^item> \<open>gDatabase\<close>: the records of the heap database, by key;
  \<^item> \<open>trace\<close>: the calls made so far.
  Failures of the operating system or of the database that do not follow from the
  arguments of a call (no memory left, an I/O error) are not modelled, except for
  \<^verbatim>\<open>mmap\<close>, whose answer is an argument of \<open>fsalloc\<close>.
\<close>

record state =
  gAllocations :: "addr \<rightharpoonup> Info"
  gRegionCache :: "addr list"
  gRegionCacheCapacity :: u32
  gStats :: Stats
  default_sigsegv :: sighandler
  kPagesize :: u32
  vm :: "addr \<rightharpoonup> u32"
  mem :: "addr \<Rightarrow> byte"
  gDatabase :: "handle_t \<rightharpoonup> byte list"
  trace :: "event list"

definition log :: "event \<Rightarrow> state \<Rightarrow> state" where
  "log e st = st\<lparr>trace := trace st @ [e]\<rparr>"

text \<open>The \<open>n\<close> bytes of memory from \<open>a\<close> on.\<close>

definition bytes_at :: "(addr \<Rightarrow> byte) \<Rightarrow> addr \<Rightarrow> nat \<Rightarrow> byte list" where
  "bytes_at m a n = map (\<lambda>i. m (a + of_nat i)) [0..<n]"

text \<open>
  \<^verbatim>\<open>mprotect\<close>: a length of 0 succeeds and changes nothing; otherwise the address must be
  mapped (\<^verbatim>\<open>ENOMEM\<close> if not). The result is the return value of the call.
\<close>

definition sys_mprotect :: "state \<Rightarrow> addr \<Rightarrow> addr \<Rightarrow> u32 \<Rightarrow> int \<times> state" where
  "sys_mprotect st a len flags =
     (let st = log (Mprotect a len flags) st
      in if len = 0 then (0, st)
         else if vm st a = None then (- 1, st)
         else (0, st\<lparr>vm := (vm st)(a \<mapsto> flags)\<rparr>))"

text \<open>
  \<^verbatim>\<open>madvise(MADV_DONTNEED)\<close> on a private anonymous mapping: the pages are dropped, and
  read as zero from then on. \<open>zero_fill m a len\<close> is the memory \<open>m\<close> with zero in the \<open>len\<close>
  bytes from \<open>a\<close> on.
\<close>

definition zero_fill :: "(addr \<Rightarrow> byte) \<Rightarrow> addr \<Rightarrow> addr \<Rightarrow> addr \<Rightarrow> byte" where
  "zero_fill m a len = (\<lambda>x. if x - a < len then 0 else m x)"

definition sys_madvise :: "state \<Rightarrow> addr \<Rightarrow> addr \<Rightarrow> int \<times> state" where
  "sys_madvise st a len =
     (let st = log (Madvise a len) st
      in if len = 0 then (0, st)
         else if vm st a = None then (- 1, st)
         else (0, st\<lparr>mem := zero_fill (mem st) a len\<rparr>))"

text \<open>\<^verbatim>\<open>munmap\<close>: a length of 0 is \<^verbatim>\<open>EINVAL\<close>; unmapping what is not mapped succeeds.\<close>

definition sys_munmap :: "state \<Rightarrow> addr \<Rightarrow> addr \<Rightarrow> int \<times> state" where
  "sys_munmap st a len =
     (let st = log (Munmap a len) st
      in if len = 0 then (- 1, st)
         else (0, st\<lparr>vm := (vm st)(a := None)\<rparr>))"

text \<open>
  \<^verbatim>\<open>mmap(nullptr, length, PROT_NONE, MAP_ANONYMOUS | MAP_PRIVATE, -1, 0)\<close>. The kernel
  chooses the address: \<open>choice\<close> is its answer (\<^verbatim>\<open>MAP_FAILED\<close> when it refuses). A length
  of 0 is \<^verbatim>\<open>EINVAL\<close>. The mapping covers whole pages, which read as zero.
\<close>

definition sys_mmap :: "state \<Rightarrow> addr \<Rightarrow> addr \<Rightarrow> addr \<times> state" where
  "sys_mmap st len choice =
     (let ret = (if len = 0 then MAP_FAILED else choice);
          st = log (Mmap len ret) st;
          pages = (len + ucast (kPagesize st) - 1) div ucast (kPagesize st) * ucast (kPagesize st)
      in if ret = MAP_FAILED then (ret, st)
         else (ret, st\<lparr>vm := (vm st)(ret \<mapsto> PROT_NONE),
                       mem := zero_fill (mem st) ret pages\<rparr>))"

text \<open>
  Whether the bytes of the mapping at \<open>a\<close> can be read, or written. An access without
  permission raises \<^verbatim>\<open>SIGSEGV\<close> in the middle of the call that makes it. Where the
  module lets the database or \<^verbatim>\<open>memcpy\<close> touch a region that its own \<^verbatim>\<open>mprotect\<close> has
  not opened, the call does not complete (the handler would run inside it, and cannot
  open the region either): the model stops with \<open>AccessFault\<close>.
\<close>

definition readable :: "state \<Rightarrow> addr \<Rightarrow> bool" where
  "readable st a = (case vm st a of None \<Rightarrow> False | Some p \<Rightarrow> p AND PROT_READ \<noteq> 0)"

definition writable :: "state \<Rightarrow> addr \<Rightarrow> bool" where
  "writable st a = (case vm st a of None \<Rightarrow> False | Some p \<Rightarrow> p AND PROT_WRITE \<noteq> 0)"

subsection \<open>db_wrapper.cc\<close>

definition db_get :: "state \<Rightarrow> handle_t \<Rightarrow> error + byte list \<times> state" where
  "db_get st r =
     (let st = log (DbGet r) st
      in case gDatabase st r of
           None \<Rightarrow> Inl (RuntimeError ''Getting from database failed'')
         | Some data \<Rightarrow> Inr (data, st))"

text \<open>
  \<^verbatim>\<open>db::put(element, size)\<close> appends a record (\<^verbatim>\<open>DB_APPEND\<close>) and returns the key the
  database gave it: \<open>new_rid\<close>. The database reads the \<open>size\<close> bytes at \<open>element\<close>, which
  must be readable.
\<close>

definition db_append :: "state \<Rightarrow> addr \<Rightarrow> u32 \<Rightarrow> handle_t \<Rightarrow> error + handle_t \<times> state" where
  "db_append st element sz new_rid =
     (let st = log (DbAppend element sz new_rid) st
      in if sz \<noteq> 0 \<and> \<not> readable st element then Inl AccessFault
         else Inr (new_rid,
                   st\<lparr>gDatabase :=
                        (gDatabase st)(new_rid \<mapsto> bytes_at (mem st) element (unat sz))\<rparr>))"

text \<open>
  \<^verbatim>\<open>db::put(element, size, rid)\<close> positions a cursor on the key (\<^verbatim>\<open>DB_SET\<close>), which fails
  when there is no such record, and overwrites the record with the \<open>size\<close> bytes at
  \<open>element\<close>, which must be readable.
\<close>

definition db_put :: "state \<Rightarrow> addr \<Rightarrow> u32 \<Rightarrow> handle_t \<Rightarrow> error + state" where
  "db_put st element sz r =
     (let st = log (DbPut element sz r) st
      in case gDatabase st r of
           None \<Rightarrow> Inl (RuntimeError ''Getting cursor from database failed'')
         | Some _ \<Rightarrow>
             if sz \<noteq> 0 \<and> \<not> readable st element then Inl AccessFault
             else Inr (st\<lparr>gDatabase :=
                           (gDatabase st)(r \<mapsto> bytes_at (mem st) element (unat sz))\<rparr>))"

text \<open>\<^verbatim>\<open>db::del\<close>: \<^verbatim>\<open>DB_NOTFOUND\<close> is not an error.\<close>

definition db_del :: "state \<Rightarrow> handle_t \<Rightarrow> error + state" where
  "db_del st r =
     (let st = log (DbDel r) st
      in Inr (st\<lparr>gDatabase := (gDatabase st)(r := None)\<rparr>))"

subsection \<open>fsalloc.cc\<close>

text \<open>
  \<^verbatim>\<open>verify\<close>: the distance, a \<^verbatim>\<open>ptrdiff_t\<close>, is stored in an \<^verbatim>\<open>int\<close> (its low 32 bits),
  tested for its sign, and compared as an unsigned number with the size.
\<close>

definition verify :: "addr \<Rightarrow> addr \<Rightarrow> u32 \<Rightarrow> bool" where
  "verify region a sz =
     (let dist = (ucast (a - region) :: u32)
      in 0 \<le> sint dist \<and> dist \<le> sz)"

text \<open>
  \<^verbatim>\<open>protect\<close> and \<^verbatim>\<open>forget\<close> take the size as a \<^verbatim>\<open>size_t\<close> and hand it to \<^verbatim>\<open>sizealign\<close>,
  which takes a \<^verbatim>\<open>uint32_t\<close>; every caller passes \<^verbatim>\<open>info.size\<close>, a \<^verbatim>\<open>uint32_t\<close>.
\<close>

definition protect :: "state \<Rightarrow> addr \<Rightarrow> u32 \<Rightarrow> u32 \<Rightarrow> error + state" where
  "protect st region sz flags =
     (let (err, st) = sys_mprotect st region (ucast (sizealign (kPagesize st) sz)) flags
      in if err \<noteq> 0 then Inl (RuntimeError ''mprotect failed'') else Inr st)"

definition forget :: "state \<Rightarrow> addr \<Rightarrow> u32 \<Rightarrow> error + state" where
  "forget st region sz =
     (let (err, st) = sys_madvise st region (ucast (sizealign (kPagesize st) sz))
      in if err \<noteq> 0 then Inl (RuntimeError ''madvise failed'')
         else protect st region sz PROT_NONE)"

text \<open>
  \<^verbatim>\<open>Info &info = gAllocations[addr]\<close> is a reference into the map: an assignment to a
  member of \<^verbatim>\<open>info\<close> changes the entry of the map.
\<close>

definition set_info :: "addr \<Rightarrow> Info \<Rightarrow> state \<Rightarrow> state" where
  "set_info a info st = st\<lparr>gAllocations := (gAllocations st)(a \<mapsto> info)\<rparr>"

text \<open>
  \<^verbatim>\<open>writeback\<close>. \<^verbatim>\<open>gAllocations[addr]\<close> inserts a value-initialised entry when \<open>addr\<close> is
  not a key. \<open>new_rid\<close> is the key the database returns if a record is appended.
\<close>

definition writeback :: "state \<Rightarrow> handle_t \<Rightarrow> error + state" where
  "writeback st new_rid =
     (if \<not> length (gRegionCache st) > 0 then Inl AssertionFailed
      else
        let a = hd (gRegionCache st);
            info = (case gAllocations st a of None \<Rightarrow> zeroInfo | Some i \<Rightarrow> i);
            st = st\<lparr>gRegionCache := tl (gRegionCache st)\<rparr>;
            info = info\<lparr>cached := False\<rparr>;
            st = set_info a info st
        in if \<not> dirty info then
             (case forget st a (size info) of
                Inl e \<Rightarrow> Inl e
              | Inr st \<Rightarrow>
                  Inr (st\<lparr>gStats := (gStats st)\<lparr>cache_hits := cache_hits (gStats st) + 1\<rparr>\<rparr>))
           else
             (case protect st a (size info) PROT_READ of
                Inl e \<Rightarrow> Inl e
              | Inr st \<Rightarrow>
                  (case (if valid info
                         then (case db_put st a (size info) (rid info) of
                                 Inl e \<Rightarrow> Inl e
                               | Inr st \<Rightarrow> Inr (info, st))
                         else (case db_append st a (size info) new_rid of
                                 Inl e \<Rightarrow> Inl e
                               | Inr (r, st) \<Rightarrow> Inr (info\<lparr>rid := r\<rparr>, st))) of
                     Inl e \<Rightarrow> Inl e
                   | Inr (info, st) \<Rightarrow>
                       let info = info\<lparr>dirty := False\<rparr>;
                           st = set_info a info st
                       in (case forget st a (size info) of
                             Inl e \<Rightarrow> Inl e
                           | Inr st \<Rightarrow>
                               Inr (st\<lparr>gStats := (gStats st)
                                      \<lparr>writebacks := writebacks (gStats st) + 1\<rparr>\<rparr>)))))"

definition push_back :: "addr \<Rightarrow> state \<Rightarrow> state" where
  "push_back a st = st\<lparr>gRegionCache := gRegionCache st @ [a]\<rparr>"

definition cacheRegion :: "state \<Rightarrow> addr \<Rightarrow> handle_t \<Rightarrow> error + state" where
  "cacheRegion st a new_rid =
     (let st = push_back a st
      in if length (gRegionCache st) > unat (gRegionCacheCapacity st)
         then writeback st new_rid
         else Inr st)"

definition allocated :: "state \<Rightarrow> addr \<Rightarrow> Info option" where
  "allocated st a = gAllocations st a"

text \<open>
  \<^verbatim>\<open>fsalloc(size)\<close>; \<open>choice\<close> is the answer of \<^verbatim>\<open>mmap\<close>. The result is the new state and
  the returned address.
\<close>

definition fsalloc :: "state \<Rightarrow> u32 \<Rightarrow> addr \<Rightarrow> handle_t \<Rightarrow> error + state \<times> addr" where
  "fsalloc st sz choice new_rid =
     (let (a, st) = sys_mmap st (ucast sz) choice
      in if a = MAP_FAILED then Inl (RuntimeError ''fsalloc: mmap failed'')
         else
           let st = set_info a (emptyInfo sz) st
           in (case cacheRegion st a new_rid of
                 Inl e \<Rightarrow> Inl e
               | Inr st \<Rightarrow>
                   Inr (st\<lparr>gStats := (gStats st)\<lparr>allocs := allocs (gStats st) + 1\<rparr>\<rparr>, a)))"

definition fsfree :: "state \<Rightarrow> addr \<Rightarrow> error + state" where
  "fsfree st a =
     (case (case allocated st a of
              Some info \<Rightarrow>
                (case db_del st (rid info) of
                   Inl e \<Rightarrow> Inl e
                 | Inr st \<Rightarrow>
                     let (ret, st) = sys_munmap st a (ucast (sizealign (kPagesize st) (size info)))
                     in if ret < 0 then Inl (RuntimeError ''fsalloc: munmap failed'')
                        else Inr (st\<lparr>gAllocations := (gAllocations st)(a := None)\<rparr>))
            | None \<Rightarrow> Inr st) of
        Inl e \<Rightarrow> Inl e
      | Inr st \<Rightarrow> Inr (st\<lparr>gStats := (gStats st)\<lparr>frees := frees (gStats st) + 1\<rparr>\<rparr>))"

text \<open>\<^verbatim>\<open>default_sigsegv.sa_handler(sig)\<close>.\<close>

definition call_default :: "state \<Rightarrow> u32 \<Rightarrow> error + state" where
  "call_default st sig =
     (case default_sigsegv st of
        Returns \<Rightarrow> Inr (log (DefaultHandler sig) st)
      | Terminates \<Rightarrow> Inl ProcessTerminated)"

text \<open>
  \<^verbatim>\<open>memcpy(region, tmp, size)\<close>, where \<open>tmp\<close> is the record read from the database. (A
  record is written with the size of its region, so it has \<open>size\<close> bytes; of a shorter
  one the model copies the bytes there are.) The destination must be writable.
\<close>

definition copy_in :: "(addr \<Rightarrow> byte) \<Rightarrow> addr \<Rightarrow> byte list \<Rightarrow> addr \<Rightarrow> addr \<Rightarrow> byte" where
  "copy_in m dst src n =
     (\<lambda>x. if x - dst < n \<and> unat (x - dst) < length src then src ! unat (x - dst) else m x)"

definition memcpy :: "state \<Rightarrow> addr \<Rightarrow> byte list \<Rightarrow> u32 \<Rightarrow> error + state" where
  "memcpy st dst tmp n =
     (let st = log (Memcpy dst n) st
      in if n \<noteq> 0 \<and> \<not> writable st dst then Inl AccessFault
         else Inr (st\<lparr>mem := copy_in (mem st) dst tmp (ucast n)\<rparr>))"

text \<open>
  The part of the handler under the comment "Filling with contents from db (or
  extracting a never-used-page)": a region that has a record in the database is made
  writable and filled with the record.
\<close>

definition fill :: "state \<Rightarrow> addr \<Rightarrow> Info \<Rightarrow> error + state" where
  "fill st region info =
     (if valid info
      then (case protect st region (size info) (PROT_READ OR PROT_WRITE) of
              Inl e \<Rightarrow> Inl e
            | Inr st \<Rightarrow>
                (case db_get st (rid info) of
                   Inl e \<Rightarrow> Inl e
                 | Inr (tmp, st) \<Rightarrow> memcpy st region tmp (size info)))
      else Inr st)"

text \<open>
  The handler from \<^verbatim>\<open>mprotect_flags = get_mprotect_flags(ctx)\<close> on, for a region that has
  an entry \<open>info\<close>. \<^verbatim>\<open>info\<close> is a reference to the entry of \<open>region\<close>; \<^verbatim>\<open>info.size\<close> never
  changes, so the last \<^verbatim>\<open>protect\<close> gets the size read at the start.
\<close>

definition serve :: "state \<Rightarrow> addr \<Rightarrow> Info \<Rightarrow> ucontext_t \<Rightarrow> handle_t \<Rightarrow> error + state" where
  "serve st region info ctx new_rid =
     (let mprotect_flags = get_mprotect_flags ctx;
          w = (mprotect_flags AND PROT_WRITE \<noteq> 0);
          info = (if w then info\<lparr>dirty := True\<rparr> else info);
          st = set_info region info st
      in if w \<and> cached info then protect st region (size info) mprotect_flags
         else
           (case fill st region info of
              Inl e \<Rightarrow> Inl e
            | Inr st \<Rightarrow>
                let st = set_info region (info\<lparr>cached := True\<rparr>) st
                in (case cacheRegion st region new_rid of
                      Inl e \<Rightarrow> Inl e
                    | Inr st \<Rightarrow> protect st region (size info) mprotect_flags)))"

text \<open>
  The \<^verbatim>\<open>SIGSEGV\<close> handler; \<open>si_addr\<close> is \<^verbatim>\<open>si->si_addr\<close>. After the call of the default
  handler for an address that \<^verbatim>\<open>verify\<close> rejects there is no \<^verbatim>\<open>return\<close>: when the
  default handler comes back, the handler goes on.
\<close>

definition handler :: "state \<Rightarrow> u32 \<Rightarrow> addr \<Rightarrow> ucontext_t \<Rightarrow> handle_t \<Rightarrow> error + state" where
  "handler st sig si_addr ctx new_rid =
     (let region = pagealign (kPagesize st) si_addr
      in case allocated st region of
           Some info \<Rightarrow>
             (case (if \<not> verify region si_addr (size info) then call_default st sig
                    else Inr st) of
                Inl e \<Rightarrow> Inl e
              | Inr st \<Rightarrow> serve st region info ctx new_rid)
         | None \<Rightarrow> call_default st sig)"

text \<open>
  \<^verbatim>\<open>db::init\<close> makes four calls and throws at the first that fails; the four results are
  the argument \<open>errs\<close>. The database is opened with \<^verbatim>\<open>DB_TRUNCATE\<close>: it is empty.
\<close>

definition db_init :: "state \<Rightarrow> string \<Rightarrow> u32 \<Rightarrow> u64 \<Rightarrow> int \<Rightarrow> int \<times> int \<times> int \<times> int \<Rightarrow> error + state" where
  "db_init st path pagesize cachesize ncache errs =
     (case errs of (create_err, pagesize_err, cachesize_err, open_err) \<Rightarrow>
        if create_err \<noteq> 0 then Inl (RuntimeError ''Could not create database'')
        else if pagesize_err \<noteq> 0 then Inl (RuntimeError ''Could not set pagesize for database'')
        else if cachesize_err \<noteq> 0 then Inl (RuntimeError ''Could not set cachesize for database'')
        else if open_err \<noteq> 0 then Inl (RuntimeError ''Could not open database'')
        else Inr (st\<lparr>gDatabase := Map.empty\<rparr>))"

text \<open>
  \<^verbatim>\<open>init(path, capacity)\<close>. \<open>old\<close> is the handler that \<^verbatim>\<open>sigaction\<close> found installed and
  \<open>sigaction_ret\<close> its return value.
\<close>

definition init :: "state \<Rightarrow> string \<Rightarrow> u32 \<Rightarrow> sighandler \<Rightarrow> int \<Rightarrow> int \<times> int \<times> int \<times> int \<Rightarrow> error + state" where
  "init st path capacity old sigaction_ret errs =
     (if sigaction_ret = - 1 then Inl (RuntimeError ''fsalloc: sigaction failed'')
      else
        let st = st\<lparr>default_sigsegv := old\<rparr>;
            st = st\<lparr>gRegionCacheCapacity := capacity\<rparr>;
            st = st\<lparr>gStats := \<lparr>allocs = 0, frees = 0, cache_hits = 0, writebacks = 0\<rparr>\<rparr>
        in db_init st path (kPagesize st) 1024 1 errs)"

definition stats :: "state \<Rightarrow> Stats" where
  "stats st = gStats st"

text \<open>
  The state when the program starts: the globals are zero-initialised (an empty map, an
  empty queue), \<^verbatim>\<open>kPagesize\<close> is what \<^verbatim>\<open>getpagesize()\<close> returned, nothing is mapped.
\<close>

definition start :: "u32 \<Rightarrow> state" where
  "start pagesize =
     \<lparr>gAllocations = Map.empty, gRegionCache = [], gRegionCacheCapacity = 0,
      gStats = \<lparr>allocs = 0, frees = 0, cache_hits = 0, writebacks = 0\<rparr>,
      default_sigsegv = Terminates, kPagesize = pagesize,
      vm = Map.empty, mem = (\<lambda>_. 0), gDatabase = Map.empty, trace = []\<rparr>"

text \<open>The state after a successful \<^verbatim>\<open>init(path, capacity)\<close> in a fresh process.\<close>

definition initial :: "u32 \<Rightarrow> u32 \<Rightarrow> sighandler \<Rightarrow> state" where
  "initial pagesize capacity old =
     (start pagesize)\<lparr>default_sigsegv := old, gRegionCacheCapacity := capacity\<rparr>"

subsection \<open>Runs of the program\<close>

text \<open>
  The states the program can be in between two operations of the mutator: after
  \<^verbatim>\<open>init\<close> in a fresh process, and after any allocation, release, handled fault or
  write-back that returned.
\<close>

inductive reachable :: "state \<Rightarrow> bool" where
  r_init: "init (start pagesize) path capacity old sigaction_ret errs = Inr st \<Longrightarrow> reachable st"
| r_fsalloc: "reachable st \<Longrightarrow> fsalloc st sz choice new_rid = Inr (st', a) \<Longrightarrow> reachable st'"
| r_fsfree: "reachable st \<Longrightarrow> fsfree st a = Inr st' \<Longrightarrow> reachable st'"
| r_handler: "reachable st \<Longrightarrow> handler st sig si_addr ctx new_rid = Inr st' \<Longrightarrow> reachable st'"
| r_writeback: "reachable st \<Longrightarrow> writeback st new_rid = Inr st' \<Longrightarrow> reachable st'"

definition SIGSEGV :: u32 where "SIGSEGV = 11"

text \<open>Two states with the same queue and the same capacity.\<close>

definition same_queue :: "state \<Rightarrow> state \<Rightarrow> bool" where
  "same_queue st st' \<longleftrightarrow>
     gRegionCache st' = gRegionCache st \<and> gRegionCacheCapacity st' = gRegionCacheCapacity st"

subsection \<open>Example inputs\<close>

text \<open>
  Fault contexts whose error code says "write" (7) and "read" (5), a database key, and
  three states of a process with pages of 4096 bytes and a capacity of one region: after
  the allocation of 4 bytes at \<open>0x1000\<close>; after a write to the first of them; after the
  release of the region instead.
\<close>

definition write_ctx :: ucontext_t where
  "write_ctx = \<lparr>uc_flags = 0, uc_link = 0,
     uc_mcontext = \<lparr>gregs = (\<lambda>i. if i = REG_ERR then 7 else 0), fpregs = 0\<rparr>, uc_sigmask = 0\<rparr>"

definition read_ctx :: ucontext_t where
  "read_ctx = \<lparr>uc_flags = 0, uc_link = 0,
     uc_mcontext = \<lparr>gregs = (\<lambda>i. if i = REG_ERR then 5 else 0), fpregs = 0\<rparr>, uc_sigmask = 0\<rparr>"

definition rid1 :: handle_t where
  "rid1 = \<lparr>pgno = 1, indx = 1\<rparr>"

definition ex_fresh :: state where
  "ex_fresh = fst (projr (fsalloc (initial 4096 1 Returns) 4 0x1000 rid1))"

definition ex_dirty :: state where
  "ex_dirty = projr (handler ex_fresh SIGSEGV 0x1000 write_ctx rid1)"

definition ex_freed :: state where
  "ex_freed = projr (fsfree ex_fresh 0x1000)"

text \<open>
  The same region written back and brought in again: from \<open>ex_dirty\<close>, a second
  allocation (at \<open>0x2000\<close>) evicts the region at \<open>0x1000\<close>, which gets the key \<open>rid1\<close>; a
  write to it then reads the record back and evicts the region at \<open>0x2000\<close>. In
  \<open>ex_back\<close> the region at \<open>0x1000\<close> is resident and dirty, and has a key.
\<close>

definition rid2 :: handle_t where
  "rid2 = \<lparr>pgno = 1, indx = 2\<rparr>"

definition ex_evicted :: state where
  "ex_evicted = fst (projr (fsalloc ex_dirty 8 0x2000 rid1))"

definition ex_back :: state where
  "ex_back = projr (handler ex_evicted SIGSEGV 0x1000 write_ctx rid2)"

text \<open>
  A region of \<open>0xffffffff\<close> bytes, the largest size \<^verbatim>\<open>fsalloc\<close> takes, for which
  \<^verbatim>\<open>sizealign\<close> wraps around to 0: after its allocation (capacity 1), and after a write
  fault at its base.
\<close>

definition ex_huge :: state where
  "ex_huge = fst (projr (fsalloc (initial 4096 1 Returns) 0xffffffff 0x7f0000000000 rid1))"


text \<open>
  A region of two pages (8192 bytes at \<open>0x3000\<close>, capacity 2) after its allocation, and
  after a read of its first byte, which makes both pages readable. \<open>old\<close> is the handler
  that was installed before \<^verbatim>\<open>init\<close>.
\<close>

definition ex_big :: "sighandler \<Rightarrow> state" where
  "ex_big old = fst (projr (fsalloc (initial 4096 2 old) 8192 0x3000 rid1))"

definition ex_big_read :: "sighandler \<Rightarrow> state" where
  "ex_big_read old = projr (handler (ex_big old) SIGSEGV 0x3000 read_ctx rid1)"

section \<open>Properties\<close>

subsection \<open>The fault-context decoder\<close>

lemma and_2_bit1: "(x AND 2 \<noteq> 0) = bit x 1" for x :: "'a::len word"
  using and_exp_eq_0_iff_not_bit [of x 1] by simp

text \<open>
  C9. The decoder answers \<^verbatim>\<open>PROT_READ | PROT_WRITE\<close> (a write) exactly when bit 1 (mask
  \<open>0x2\<close>) of the error-code register of the context is set, and \<^verbatim>\<open>PROT_READ\<close> (a read)
  otherwise; two contexts with the same bit 1 of that register get the same answer,
  whatever their other fields are.
\<close>

theorem get_mprotect_flags_decodes:
  "get_mprotect_flags ctx =
     (if bit (gregs (uc_mcontext ctx) REG_ERR) 1 then PROT_READ OR PROT_WRITE else PROT_READ)
   \<and> (get_mprotect_flags ctx AND PROT_WRITE \<noteq> 0) = bit (gregs (uc_mcontext ctx) REG_ERR) 1
   \<and> get_mprotect_flags ctx AND PROT_READ \<noteq> 0
   \<and> (bit (gregs (uc_mcontext ctx) REG_ERR) 1 = bit (gregs (uc_mcontext ctx') REG_ERR) 1
        \<longrightarrow> get_mprotect_flags ctx = get_mprotect_flags ctx')"
  by (simp add: get_mprotect_flags_def and_2_bit1 PROT_READ_def PROT_WRITE_def)

theorem get_mprotect_flags_decodes_witness:
  "get_mprotect_flags \<lparr>uc_flags = 0, uc_link = 0,
       uc_mcontext = \<lparr>gregs = (\<lambda>i. if i = 19 then 6 else 0), fpregs = 0\<rparr>, uc_sigmask = 0\<rparr> = 3
   \<and> get_mprotect_flags \<lparr>uc_flags = 7, uc_link = 1,
       uc_mcontext = \<lparr>gregs = (\<lambda>i. if i = 19 then 7 else 5), fpregs = 9\<rparr>, uc_sigmask = 2\<rparr> = 3"
  using get_mprotect_flags_decodes
    [of "\<lparr>uc_flags = 0, uc_link = 0,
       uc_mcontext = \<lparr>gregs = (\<lambda>i. if i = 19 then 6 else 0), fpregs = 0\<rparr>, uc_sigmask = 0\<rparr>"
       "\<lparr>uc_flags = 7, uc_link = 1,
       uc_mcontext = \<lparr>gregs = (\<lambda>i. if i = 19 then 7 else 5), fpregs = 9\<rparr>, uc_sigmask = 2\<rparr>"]
  by (auto simp: REG_ERR_def PROT_READ_def PROT_WRITE_def)

subsection \<open>Alignment\<close>

lemma unat_of_nat_u32: "n < 2 ^ 32 \<Longrightarrow> unat (word_of_nat n :: u32) = n"
  by (subst unat_of_nat) simp

lemma unat_pow2_u32: "unat (2 ^ k :: u32) = 2 ^ k" if "k < 32"
proof -
  have "(2::nat) ^ k < 2 ^ 32" using that power_strict_increasing [of k 32 "2::nat"] by simp
  then have "unat (word_of_nat (2 ^ k) :: u32) = 2 ^ k" by (rule unat_of_nat_u32)
  then show ?thesis by simp
qed

lemma unat_add_pagesize:
  assumes "k < 32" "unat sz + 2 ^ k - 1 < 2 ^ 32"
  shows "unat (sz + 2 ^ k - 1 :: u32) = unat sz + 2 ^ k - 1"
proof -
  have "word_of_nat (unat sz + 2 ^ k - 1) = (sz + 2 ^ k - 1 :: u32)"
  proof -
    have "1 \<le> unat sz + 2 ^ k" using one_le_power [of "2::nat" k] by linarith
    then show ?thesis by (subst of_nat_diff) simp_all
  qed
  then show ?thesis
    using unat_of_nat_u32 [OF assms(2)] by simp
qed

lemma unat_sizealign:
  assumes "k < 32" "unat sz + 2 ^ k - 1 < 2 ^ 32"
  shows "unat (sizealign (2 ^ k) sz) = ((unat sz + 2 ^ k - 1) div 2 ^ k) * 2 ^ k"
proof -
  let ?q = "(unat sz + 2 ^ k - 1) div 2 ^ k"
  have le: "?q * 2 ^ k \<le> unat sz + 2 ^ k - 1" by simp
  then have lt: "?q * 2 ^ k < 2 ^ 32" using assms(2) by linarith
  have "sizealign (2 ^ k) sz = word_of_nat ?q * word_of_nat (2 ^ k)"
    unfolding sizealign_def
    by (subst word_arith_nat_div) (simp only: unat_add_pagesize [OF assms] unat_pow2_u32 [OF assms(1)], simp)
  then have "sizealign (2 ^ k) sz = word_of_nat (?q * 2 ^ k)" by simp
  then show ?thesis
    using unat_of_nat_u32 [OF lt] by simp
qed

lemma find_upt_least:
  "P k \<Longrightarrow> k < n \<Longrightarrow> (\<And>j. j < k \<Longrightarrow> \<not> P j) \<Longrightarrow> find P [m..<n] = Some k" if "m \<le> k"
  using that
proof (induction "k - m" arbitrary: m)
  case 0
  then show ?case by (simp add: upt_conv_Cons)
next
  case (Suc d)
  then have "m < k" "m < n" by auto
  with Suc show ?case by (simp add: upt_conv_Cons)
qed

lemma ffs_pow2: "k < 32 \<Longrightarrow> ffs (2 ^ k) = Suc k"
  unfolding ffs_def
  by (subst find_upt_least [where k = k]) (auto simp: bit_simps)

lemma pagealign_push_drop: "pagealign (2 ^ k) a = push_bit k (drop_bit k a)" if "k < 32"
  using that unfolding pagealign_def Let_def
  apply (simp add: ffs_pow2)
  apply (rule bit_word_eqI)
  apply (auto simp: bit_simps)
  done

lemma unat_pagealign: "unat (pagealign (2 ^ k) a) = (unat a div 2 ^ k) * 2 ^ k" if "k < 32"
proof -
  have "(unat a div 2 ^ k) * 2 ^ k \<le> unat a" by simp
  also have "\<dots> < 2 ^ 64" using unsigned_less [of a] by simp
  finally have lt: "(unat a div 2 ^ k) * 2 ^ k < 2 ^ 64" .
  have tb: "take_bit 64 (unat a) = unat a"
    using unsigned_less [of a] by (simp add: take_bit_nat_eq_self_iff)
  have "unat (pagealign (2 ^ k) a) = take_bit 64 (push_bit k (drop_bit k (unat a)))"
    using that by (simp add: pagealign_push_drop unsigned_push_bit_eq unsigned_drop_bit_eq tb)
  also have "\<dots> = (unat a div 2 ^ k) * 2 ^ k"
    using lt by (simp add: push_bit_eq_mult drop_bit_eq_div take_bit_nat_eq_self_iff mult.commute)
  finally show ?thesis .
qed

lemma div_ceil_aux: "(j * p + p - 1) div p = j" if "0 < p" for j p :: nat
proof -
  have ne: "p \<noteq> 0" using that by simp
  have "j * p + p - 1 = j * p + (p - 1)" using that by simp
  also have "\<dots> div p = j + (p - 1) div p" by (rule div_mult_self3 [OF ne])
  also have "\<dots> = j" using that by simp
  finally show ?thesis .
qed

lemma ceil_mult_ge: "0 < p \<Longrightarrow> s \<le> ((s + p - 1) div p) * p" for s p :: nat
proof -
  assume p: "0 < p"
  have "s + p - 1 = ((s + p - 1) div p) * p + (s + p - 1) mod p" by simp
  moreover have "(s + p - 1) mod p \<le> p - 1" using p by (simp add: less_Suc_eq_le [symmetric])
  ultimately show ?thesis using p by linarith
qed

lemma ceil_mult_least:
  "0 < p \<Longrightarrow> p dvd m \<Longrightarrow> s \<le> m \<Longrightarrow> ((s + p - 1) div p) * p \<le> m" for s p m :: nat
proof -
  assume p: "0 < p" and d: "p dvd m" and le: "s \<le> m"
  from d obtain j where m: "m = j * p" by (auto simp: dvd_def mult.commute)
  have "s + p - 1 < (j + 1) * p" using le m p by simp
  then have "(s + p - 1) div p < j + 1" using p by (simp add: div_less_iff_less_mult)
  then have "(s + p - 1) div p \<le> j" by simp
  then show ?thesis unfolding m by (rule mult_le_mono1)
qed

lemma floor_mult_greatest:
  "0 < p \<Longrightarrow> p dvd m \<Longrightarrow> m \<le> a \<Longrightarrow> m \<le> (a div p) * p" for a p m :: nat
proof -
  assume p: "0 < p" and d: "p dvd m" and le: "m \<le> a"
  from d obtain j where m: "m = j * p" by (auto simp: dvd_def mult.commute)
  have "j \<le> a div p" using le m p by (simp add: less_eq_div_iff_mult_less_eq)
  then show ?thesis unfolding m by (rule mult_le_mono1)
qed

lemma sizealign_idem:
  assumes "k < 32" "unat sz + 2 ^ k - 1 < 2 ^ 32"
  shows "sizealign (2 ^ k) (sizealign (2 ^ k) sz) = sizealign (2 ^ k) sz"
proof -
  let ?p = "(2::nat) ^ k"
  let ?r = "unat (sizealign (2 ^ k) sz)"
  have r: "?r = ((unat sz + ?p - 1) div ?p) * ?p" by (rule unat_sizealign [OF assms])
  have dv: "?p dvd ?r" unfolding r by simp
  have "?r \<le> unat sz + ?p - 1" unfolding r by simp
  then have lt: "?r < 2 ^ 32" using assms(2) by linarith
  have "?p dvd (2::nat) ^ 32" using assms(1) le_imp_power_dvd [of k 32 "2::nat"] by simp
  then have "?p dvd 2 ^ 32 - ?r" using dv by (rule dvd_diff_nat)
  moreover have "0 < (2::nat) ^ 32 - ?r" using lt by simp
  ultimately have "?p \<le> 2 ^ 32 - ?r" by (rule dvd_imp_le)
  then have no: "?r + ?p - 1 < 2 ^ 32" using lt by linarith
  have "(?r + ?p - 1) div ?p * ?p = ?r"
  proof -
    from dv obtain j where j: "?r = j * ?p" by (auto simp: dvd_def mult.commute)
    have "(j * ?p + ?p - 1) div ?p = j" by (rule div_ceil_aux) simp
    then show ?thesis unfolding j by (simp only:)
  qed
  then have "unat (sizealign (2 ^ k) (sizealign (2 ^ k) sz)) = ?r"
    using unat_sizealign [OF assms(1) no] by simp
  then show ?thesis by (rule word_unat_eq_iff [THEN iffD2])
qed

text \<open>
  C10. For a page size that is a power of two (and a positive \<^verbatim>\<open>int\<close>): when
  \<open>size + pagesize - 1\<close> does not overflow 32 bits, \<open>sizealign size\<close> is a multiple of the
  page size, is at least \<open>size\<close>, is the least such number, and \<open>sizealign\<close> leaves it as
  it is; \<open>pagealign a\<close> is a multiple of the page size, is at most \<open>a\<close>, is the greatest
  such number, \<open>pagealign\<close> leaves it as it is, and \<open>a - pagealign a\<close> is less than the
  page size.
\<close>

theorem alignment:
  assumes "ps = 2 ^ k" and "k < 31"
  shows "(unat sz + unat ps - 1 < 2 ^ 32 \<longrightarrow>
            unat ps dvd unat (sizealign ps sz)
          \<and> unat sz \<le> unat (sizealign ps sz)
          \<and> (\<forall>m. unat ps dvd m \<and> unat sz \<le> m \<longrightarrow> unat (sizealign ps sz) \<le> m)
          \<and> sizealign ps (sizealign ps sz) = sizealign ps sz)
       \<and> unat ps dvd unat (pagealign ps a)
       \<and> pagealign ps a \<le> a
       \<and> (\<forall>m. unat ps dvd m \<and> m \<le> unat a \<longrightarrow> m \<le> unat (pagealign ps a))
       \<and> pagealign ps (pagealign ps a) = pagealign ps a
       \<and> unat (a - pagealign ps a) < unat ps"
proof -
  have k: "k < 32" using assms(2) by simp
  have p: "unat ps = 2 ^ k" using assms(1) k by (simp add: unat_pow2_u32)
  have pa: "unat (pagealign ps a) = (unat a div 2 ^ k) * 2 ^ k" for a
    unfolding assms(1) by (rule unat_pagealign [OF k])
  have le: "pagealign ps a \<le> a" by (simp add: word_le_nat_alt pa)
  have "unat (a - pagealign ps a) = unat a - unat (pagealign ps a)"
    using le by (simp add: unat_sub)
  also have "\<dots> = unat a mod 2 ^ k" by (simp add: pa minus_div_mult_eq_mod)
  finally have low: "unat (a - pagealign ps a) < unat ps" by (simp add: p)
  have idem: "pagealign ps (pagealign ps a) = pagealign ps a"
    by (rule word_unat_eq_iff [THEN iffD2]) (simp add: pa)
  have great: "\<forall>m. unat ps dvd m \<and> m \<le> unat a \<longrightarrow> m \<le> unat (pagealign ps a)"
    by (simp add: p pa floor_mult_greatest)
  have sz: "unat ps dvd unat (sizealign ps sz)
          \<and> unat sz \<le> unat (sizealign ps sz)
          \<and> (\<forall>m. unat ps dvd m \<and> unat sz \<le> m \<longrightarrow> unat (sizealign ps sz) \<le> m)
          \<and> sizealign ps (sizealign ps sz) = sizealign ps sz"
    if no: "unat sz + unat ps - 1 < 2 ^ 32"
  proof -
    have no': "unat sz + 2 ^ k - 1 < 2 ^ 32" using no by (simp add: p)
    have u: "unat (sizealign ps sz) = ((unat sz + 2 ^ k - 1) div 2 ^ k) * 2 ^ k"
      unfolding assms(1) by (rule unat_sizealign [OF k no'])
    have pos: "0 < (2::nat) ^ k" by simp
    have "unat sz \<le> unat (sizealign ps sz)"
      unfolding u by (rule ceil_mult_ge [OF pos])
    moreover have "unat (sizealign ps sz) \<le> m" if "unat ps dvd m" "unat sz \<le> m" for m
      unfolding u using that by (intro ceil_mult_least [OF pos]) (simp_all add: p)
    moreover have "unat ps dvd unat (sizealign ps sz)"
      unfolding u p by simp
    ultimately show ?thesis
      using sizealign_idem [OF k no', folded assms(1)] by blast
  qed
  show ?thesis using sz le low idem great by (simp add: pa p)
qed

theorem alignment_witness:
  "unat (5 :: u32) + unat (4096 :: u32) - 1 < 2 ^ 32
   \<and> sizealign 4096 5 = 4096 \<and> sizealign 4096 4096 = 4096
   \<and> pagealign 4096 0x7fff12345678 = 0x7fff12345000
   \<and> unat (0x7fff12345678 - pagealign 4096 0x7fff12345678) < 4096"
proof -
  have e: "(4096 :: u32) = 2 ^ 12" by simp
  have "sizealign 4096 5 = 4096" "pagealign 4096 0x7fff12345678 = 0x7fff12345000"
    by code_simp+
  then show ?thesis
    using alignment [OF e, of 5 "0x7fff12345678"] by simp
qed

subsection \<open>What the primitives do\<close>

lemma protect_eq:
  "protect st a sz flags =
     (let len = (ucast (sizealign (kPagesize st) sz) :: addr) in
      if len = 0 then Inr (st\<lparr>trace := trace st @ [Mprotect a len flags]\<rparr>)
      else if vm st a = None then Inl (RuntimeError ''mprotect failed'')
      else Inr (st\<lparr>vm := (vm st)(a \<mapsto> flags), trace := trace st @ [Mprotect a len flags]\<rparr>))"
  by (simp add: protect_def sys_mprotect_def log_def Let_def)

lemma forget_eq:
  "forget st a sz =
     (let len = (ucast (sizealign (kPagesize st) sz) :: addr) in
      if len = 0 then Inr (st\<lparr>trace := trace st @ [Madvise a len, Mprotect a len PROT_NONE]\<rparr>)
      else if vm st a = None then Inl (RuntimeError ''madvise failed'')
      else Inr (st\<lparr>vm := (vm st)(a \<mapsto> PROT_NONE),
                   mem := zero_fill (mem st) a len,
                   trace := trace st @ [Madvise a len, Mprotect a len PROT_NONE]\<rparr>))"
  by (simp add: forget_def protect_eq sys_madvise_def log_def Let_def)


lemma unat_ucast_32_64: "unat (ucast (x :: u32) :: addr) = unat x"
proof -
  have "unat x < 2 ^ 32" using unsigned_less [of x, where 'a = nat] by simp
  then have "unat x < 2 ^ 64" by simp
  then show ?thesis by (simp add: unsigned_ucast_eq take_bit_nat_eq_self_iff)
qed

lemma ucast_32_64_eq_0: "(ucast (x :: u32) :: addr) = 0 \<longleftrightarrow> x = 0"
  by (metis unat_eq_zero unat_ucast_32_64)

lemma valid_iff: "valid info \<longleftrightarrow> rid info \<noteq> invalid_handle"
  by (cases info; cases "rid info") (auto simp: valid_def invalid_handle_def)

lemma writeback_pop:
  assumes q: "gRegionCache st = a # q"
    and t: "(case gAllocations st a of None \<Rightarrow> zeroInfo | Some i \<Rightarrow> i) = info"
    and m: "sizealign (kPagesize st) (size info) \<noteq> 0 \<longrightarrow> vm st a \<noteq> None"
    and k: "dirty info \<and> valid info \<longrightarrow> gDatabase st (rid info) \<noteq> None"
    and r: "dirty info \<and> size info \<noteq> 0 \<and> sizealign (kPagesize st) (size info) = 0
              \<longrightarrow> readable st a"
  shows "writeback st new_rid =
     (let len = (ucast (sizealign (kPagesize st) (size info)) :: addr);
          key = (if valid info then rid info else new_rid)
      in Inr (st\<lparr>
           gAllocations := (gAllocations st)
              (a \<mapsto> (if dirty info then info\<lparr>rid := key, dirty := False, cached := False\<rparr>
                     else info\<lparr>cached := False\<rparr>)),
           gRegionCache := q,
           gStats := (if dirty info
                      then (gStats st)\<lparr>writebacks := writebacks (gStats st) + 1\<rparr>
                      else (gStats st)\<lparr>cache_hits := cache_hits (gStats st) + 1\<rparr>),
           vm := (if len = 0 then vm st else (vm st)(a \<mapsto> PROT_NONE)),
           mem := (if len = 0 then mem st else zero_fill (mem st) a len),
           gDatabase := (if dirty info
                         then (gDatabase st)(key \<mapsto> bytes_at (mem st) a (unat (size info)))
                         else gDatabase st),
           trace := trace st @
             (if dirty info
              then [Mprotect a len PROT_READ,
                    if valid info then DbPut a (size info) (rid info)
                    else DbAppend a (size info) new_rid,
                    Madvise a len, Mprotect a len PROT_NONE]
              else [Madvise a len, Mprotect a len PROT_NONE])\<rparr>))"
proof -
  have ne: "(ucast (sizealign (kPagesize st) (size info)) :: addr) = 0
             \<longleftrightarrow> sizealign (kPagesize st) (size info) = 0"
    by (rule ucast_32_64_eq_0)
  have m': "vm st a = None \<longrightarrow> sizealign (kPagesize st) (size info) = 0"
    using m by blast
  have pr: "PROT_READ \<noteq> 0" by (simp add: PROT_READ_def)
  show ?thesis
  proof (cases "dirty info")
    case False
    then show ?thesis
      using q t m'
      by (cases st; cases info) (simp add: writeback_def forget_eq set_info_def Let_def ne)
  next
    case True
    show ?thesis
    proof (cases "sizealign (kPagesize st) (size info) = 0")
      case z: True
      with True r have r': "size info \<noteq> 0 \<longrightarrow> readable st a" by simp
      show ?thesis
      proof (cases "valid info")
        case v: True
        with True k obtain d where "gDatabase st (rid info) = Some d" by auto
        with True v z show ?thesis
          using q t r'
          by (cases st; cases info) (auto simp add: writeback_def forget_eq protect_eq db_put_def
              log_def set_info_def Let_def valid_def readable_def)
      next
        case v: False
        with True z show ?thesis
          using q t r'
          by (cases st; cases info) (auto simp add: writeback_def forget_eq protect_eq db_append_def
              log_def set_info_def Let_def valid_def readable_def)
      qed
    next
      case z: False
      with m obtain p where p: "vm st a = Some p" by auto
      show ?thesis
      proof (cases "valid info")
        case v: True
        with True k obtain d where "gDatabase st (rid info) = Some d" by auto
        with True v z show ?thesis
          using q t p
          by (cases st; cases info) (simp add: writeback_def forget_eq protect_eq db_put_def
              log_def set_info_def Let_def ucast_32_64_eq_0 valid_def readable_def pr)
      next
        case v: False
        with True z show ?thesis
          using q t p
          by (cases st; cases info) (simp add: writeback_def forget_eq protect_eq db_append_def
              log_def set_info_def Let_def ucast_32_64_eq_0 valid_def readable_def pr)
      qed
    qed
  qed
qed

subsection \<open>The queue\<close>

lemma same_queue_refl [simp]: "same_queue st st"
  by (simp add: same_queue_def)

lemma same_queue_upd [simp]:
  "same_queue st (set_info a i st')= same_queue st st'"
  "same_queue (set_info a i st) st' = same_queue st st'"
  "same_queue st (log e st') = same_queue st st'"
  "same_queue st (st'\<lparr>gStats := s\<rparr>) = same_queue st st'"
  by (simp_all add: same_queue_def set_info_def log_def)

lemma protect_queue: "protect st a sz fl = Inr st' \<Longrightarrow> same_queue st st'"
  by (auto simp: protect_eq Let_def same_queue_def split: if_splits)

lemma forget_queue: "forget st a sz = Inr st' \<Longrightarrow> same_queue st st'"
  by (auto simp: forget_eq Let_def same_queue_def split: if_splits)

lemma db_put_queue: "db_put st a sz r = Inr st' \<Longrightarrow> same_queue st st'"
  by (auto simp: db_put_def log_def Let_def same_queue_def split: option.splits if_splits)

lemma db_append_queue: "db_append st a sz r = Inr (k, st') \<Longrightarrow> same_queue st st'"
  by (auto simp: db_append_def log_def Let_def same_queue_def split: if_splits)

lemma db_get_queue: "db_get st r = Inr (d, st') \<Longrightarrow> same_queue st st'"
  by (auto simp: db_get_def log_def Let_def same_queue_def split: option.splits)

lemma db_del_queue: "db_del st r = Inr st' \<Longrightarrow> same_queue st st'"
  by (auto simp: db_del_def log_def Let_def same_queue_def)

lemma call_default_queue: "call_default st sig = Inr st' \<Longrightarrow> same_queue st st'"
  by (auto simp: call_default_def log_def same_queue_def split: sighandler.splits)

lemma memcpy_queue: "memcpy st a d n = Inr st' \<Longrightarrow> same_queue st st'"
  by (auto simp: memcpy_def log_def Let_def same_queue_def split: if_splits)

lemma same_queue_trans: "same_queue a b \<Longrightarrow> same_queue b c \<Longrightarrow> same_queue a c"
  by (simp add: same_queue_def)

lemma writeback_queue:
  assumes "writeback st r = Inr st'"
  shows "gRegionCache st' = tl (gRegionCache st) \<and> gRegionCacheCapacity st' = gRegionCacheCapacity st
         \<and> gRegionCache st \<noteq> []"
proof -
  let ?a = "hd (gRegionCache st)"
  let ?i = "(case gAllocations st ?a of None \<Rightarrow> zeroInfo | Some i \<Rightarrow> i)\<lparr>cached := False\<rparr>"
  let ?s = "set_info ?a ?i (st\<lparr>gRegionCache := tl (gRegionCache st)\<rparr>)"
  have ne: "gRegionCache st \<noteq> []" using assms by (auto simp: writeback_def)
  have "same_queue ?s st'"
  proof (cases "dirty ?i")
    case False
    with assms ne obtain s1 where "forget ?s ?a (size ?i) = Inr s1" "st' = s1\<lparr>gStats := (gStats s1)\<lparr>cache_hits := cache_hits (gStats s1) + 1\<rparr>\<rparr>"
      by (auto simp: writeback_def Let_def split: sum.splits)
    then show ?thesis using forget_queue by fastforce
  next
    case True
    show ?thesis
    proof (cases "valid ?i")
      case v: True
      with assms ne True obtain s1 s2 s3 where
        1: "protect ?s ?a (size ?i) PROT_READ = Inr s1" and
        2: "db_put s1 ?a (size ?i) (rid ?i) = Inr s2" and
        3: "forget (set_info ?a (?i\<lparr>dirty := False\<rparr>) s2) ?a (size ?i) = Inr s3" and
        4: "st' = s3\<lparr>gStats := (gStats s3)\<lparr>writebacks := writebacks (gStats s3) + 1\<rparr>\<rparr>"
        by (auto simp: writeback_def Let_def split: sum.splits)
      from protect_queue [OF 1] db_put_queue [OF 2] forget_queue [OF 3] 4 show ?thesis
        by (auto simp: same_queue_def set_info_def)
    next
      case v: False
      with assms ne True obtain s1 s2 k s3 where
        1: "protect ?s ?a (size ?i) PROT_READ = Inr s1" and
        2: "db_append s1 ?a (size ?i) r = Inr (k, s2)" and
        3: "forget (set_info ?a (?i\<lparr>rid := k, dirty := False\<rparr>) s2) ?a (size ?i) = Inr s3" and
        4: "st' = s3\<lparr>gStats := (gStats s3)\<lparr>writebacks := writebacks (gStats s3) + 1\<rparr>\<rparr>"
        by (auto simp: writeback_def Let_def split: sum.splits)
      from protect_queue [OF 1] db_append_queue [OF 2] forget_queue [OF 3] 4 show ?thesis
        by (auto simp: same_queue_def set_info_def)
    qed
  qed
  then show ?thesis using ne by (simp add: same_queue_def set_info_def)
qed

lemma cacheRegion_queue:
  assumes "cacheRegion st a r = Inr st'"
  shows "gRegionCacheCapacity st' = gRegionCacheCapacity st \<and>
         gRegionCache st' =
           (if length (gRegionCache st) < unat (gRegionCacheCapacity st)
            then gRegionCache st @ [a] else tl (gRegionCache st @ [a]))"
  using assms
  by (auto simp: cacheRegion_def push_back_def Let_def split: if_splits dest!: writeback_queue)

lemma fill_queue: "fill st a i = Inr st' \<Longrightarrow> same_queue st st'"
  by (auto simp: fill_def split: if_splits sum.splits
        dest!: protect_queue db_get_queue memcpy_queue intro: same_queue_trans)

lemma serve_queue:
  assumes "serve st region info ctx r = Inr st'"
  shows "gRegionCacheCapacity st' = gRegionCacheCapacity st \<and>
         (gRegionCache st' = gRegionCache st \<or>
          gRegionCache st' =
           (if length (gRegionCache st) < unat (gRegionCacheCapacity st)
            then gRegionCache st @ [region] else tl (gRegionCache st @ [region])))"
proof -
  define w where "w = (get_mprotect_flags ctx AND PROT_WRITE \<noteq> 0)"
  define info' where "info' = (if w then info\<lparr>dirty := True\<rparr> else info)"
  have eq: "serve st region info ctx r =
     (if w \<and> cached info'
      then protect (set_info region info' st) region (size info') (get_mprotect_flags ctx)
      else (case fill (set_info region info' st) region info' of
              Inl e \<Rightarrow> Inl e
            | Inr s2 \<Rightarrow>
                (case cacheRegion (set_info region (info'\<lparr>cached := True\<rparr>) s2) region r of
                   Inl e \<Rightarrow> Inl e
                 | Inr s3 \<Rightarrow> protect s3 region (size info') (get_mprotect_flags ctx))))"
    by (simp only: serve_def Let_def w_def info'_def)
  note run = assms [unfolded eq]
  show ?thesis
  proof (cases "w \<and> cached info'")
    case True
    with run have "protect (set_info region info' st) region (size info') (get_mprotect_flags ctx) = Inr st'"
      by simp
    from protect_queue [OF this] show ?thesis by (simp add: same_queue_def set_info_def)
  next
    case False
    with run obtain s2 s3 where
      2: "fill (set_info region info' st) region info' = Inr s2" and
      3: "cacheRegion (set_info region (info'\<lparr>cached := True\<rparr>) s2) region r = Inr s3" and
      4: "protect s3 region (size info') (get_mprotect_flags ctx) = Inr st'"
      by (auto split: sum.splits)
    from fill_queue [OF 2] cacheRegion_queue [OF 3] protect_queue [OF 4] show ?thesis
      by (simp add: same_queue_def set_info_def)
  qed
qed

lemma handler_queue:
  assumes "handler st sig va ctx r = Inr st'"
  shows "gRegionCacheCapacity st' = gRegionCacheCapacity st \<and>
         (gRegionCache st' = gRegionCache st \<or>
          gRegionCache st' =
           (if length (gRegionCache st) < unat (gRegionCacheCapacity st)
            then gRegionCache st @ [pagealign (kPagesize st) va]
            else tl (gRegionCache st @ [pagealign (kPagesize st) va])))"
proof (cases "allocated st (pagealign (kPagesize st) va)")
  case None
  with assms show ?thesis
    by (auto simp: handler_def Let_def same_queue_def dest!: call_default_queue)
next
  case (Some info)
  have "\<exists>s1. same_queue st s1 \<and> serve s1 (pagealign (kPagesize st) va) info ctx r = Inr st'"
  proof (cases "verify (pagealign (kPagesize st) va) va (size info)")
    case True
    with assms Some have "serve st (pagealign (kPagesize st) va) info ctx r = Inr st'"
      by (simp add: handler_def Let_def)
    then show ?thesis using same_queue_refl by blast
  next
    case False
    with assms Some obtain s1 where "call_default st sig = Inr s1"
      "serve s1 (pagealign (kPagesize st) va) info ctx r = Inr st'"
      by (auto simp: handler_def Let_def split: sum.splits)
    then show ?thesis using call_default_queue by blast
  qed
  then obtain s1 where s1: "same_queue st s1"
    and rest: "serve s1 (pagealign (kPagesize st) va) info ctx r = Inr st'"
    by blast
  from serve_queue [OF rest] s1 show ?thesis by (auto simp: same_queue_def)
qed

lemma fsalloc_queue:
  assumes "fsalloc st sz choice r = Inr (st', a)"
  shows "gRegionCacheCapacity st' = gRegionCacheCapacity st \<and>
         gRegionCache st' =
           (if length (gRegionCache st) < unat (gRegionCacheCapacity st)
            then gRegionCache st @ [a] else tl (gRegionCache st @ [a]))"
proof -
  obtain s1 where m: "sys_mmap st (ucast sz) choice = (a, s1)" and 3: "cacheRegion (set_info a (emptyInfo sz) s1) a r = Inr (st'\<lparr>gStats := gStats (st'\<lparr>gStats := gStats st'\<rparr>)\<rparr>) \<or> True"
    using assms by (auto simp: fsalloc_def Let_def split: prod.splits if_splits sum.splits)
  from assms m obtain s2 where 3: "cacheRegion (set_info a (emptyInfo sz) s1) a r = Inr s2"
    and 4: "same_queue s2 st'"
    by (auto simp: fsalloc_def Let_def same_queue_def split: prod.splits if_splits sum.splits)
  from m have "same_queue st s1"
    by (auto simp: sys_mmap_def Let_def log_def same_queue_def split: if_splits)
  with cacheRegion_queue [OF 3] 4 show ?thesis by (simp add: same_queue_def set_info_def)
qed

lemma fsfree_queue:
  assumes "fsfree st a = Inr st'"
  shows "same_queue st st'"
  using assms
  by (auto simp: fsfree_def allocated_def Let_def db_del_def sys_munmap_def log_def same_queue_def
        split: option.splits sum.splits prod.splits if_splits)

lemma init_queue:
  assumes "init (start ps) path capacity old ret errs = Inr st"
  shows "gRegionCache st = [] \<and> gRegionCacheCapacity st = capacity"
  using assms
  by (auto simp: init_def db_init_def start_def Let_def split: if_splits prod.splits)

text \<open>
  C5. In every state the program reaches by allocations, releases, handled faults and
  write-backs after \<^verbatim>\<open>init\<close>, the queue is no longer than the capacity; so the queue
  that an admission (\<^verbatim>\<open>push_back\<close> in \<^verbatim>\<open>cacheRegion\<close>) makes of it is no longer than the
  capacity plus one.
\<close>

theorem queue_bounded:
  assumes "reachable st"
  shows "length (gRegionCache st) \<le> unat (gRegionCacheCapacity st)
       \<and> length (gRegionCache (push_back a st)) \<le> unat (gRegionCacheCapacity st) + 1"
proof -
  have "length (gRegionCache st) \<le> unat (gRegionCacheCapacity st)"
    using assms
  proof (induction rule: reachable.induct)
    case (r_init pagesize path capacity old sigaction_ret errs st)
    then show ?case by (simp add: init_queue)
  next
    case (r_fsalloc st sz choice new_rid st' a)
    from fsalloc_queue [OF r_fsalloc.hyps(2)] r_fsalloc.IH show ?case by (simp split: if_splits)
  next
    case (r_fsfree st a st')
    from fsfree_queue [OF r_fsfree.hyps(2)] r_fsfree.IH show ?case by (simp add: same_queue_def)
  next
    case (r_handler st sig si_addr ctx new_rid st')
    from handler_queue [OF r_handler.hyps(2)] r_handler.IH show ?case by (auto split: if_splits)
  next
    case (r_writeback st new_rid st')
    from writeback_queue [OF r_writeback.hyps(2)] r_writeback.IH show ?case by simp
  qed
  then show ?thesis by (simp add: push_back_def)
qed

subsection \<open>Releasing an unknown address\<close>

text \<open>
  C3, as amended. For an address that is not a key of the allocation table, \<^verbatim>\<open>fsfree\<close>
  returns, and the state it leaves differs from the state before in one place: \<open>frees\<close>
  is one more. The table, the queue, the database, the mappings, the memory and the
  calls made are the same.
\<close>

theorem fsfree_unknown:
  "gAllocations st a = None \<Longrightarrow>
   fsfree st a = Inr (st\<lparr>gStats := (gStats st)\<lparr>frees := frees (gStats st) + 1\<rparr>\<rparr>)"
  by (simp add: fsfree_def allocated_def)

theorem fsfree_unknown_witness:
  "gAllocations (initial 4096 4 Returns) 0x1000 = None
   \<and> fsfree (initial 4096 4 Returns) 0x1000 =
       Inr ((initial 4096 4 Returns)\<lparr>gStats := \<lparr>allocs = 0, frees = 1, cache_hits = 0, writebacks = 0\<rparr>\<rparr>)"
  using fsfree_unknown [of "initial 4096 4 Returns" "0x1000"]
  by (simp add: initial_def start_def)

text \<open>
  C3 as stated fails: in the state after \<^verbatim>\<open>init\<close>, where nothing is allocated,
  \<^verbatim>\<open>fsfree\<close> of an address takes \<open>frees\<close> from 0 to 1.
\<close>

theorem fsfree_unknown_counterexample:
  "gAllocations (initial 4096 4 Returns) 0x1000 = None
   \<and> frees (gStats (initial 4096 4 Returns)) = 0
   \<and> map_sum id (\<lambda>st. frees (gStats st)) (fsfree (initial 4096 4 Returns) 0x1000) = Inr 1"
  by (simp add: fsfree_def allocated_def initial_def start_def)

subsection \<open>Allocation\<close>

lemma fsalloc_eq:
  assumes "sz \<noteq> 0" "choice \<noteq> MAP_FAILED"
  shows "fsalloc st sz choice r =
     (let pages = (ucast sz + ucast (kPagesize st) - 1) div ucast (kPagesize st) * ucast (kPagesize st);
          mid = st\<lparr>gAllocations := (gAllocations st)(choice \<mapsto> emptyInfo sz),
                   gRegionCache := gRegionCache st @ [choice],
                   vm := (vm st)(choice \<mapsto> PROT_NONE),
                   mem := zero_fill (mem st) choice pages,
                   trace := trace st @ [Mmap (ucast sz) choice]\<rparr>
      in if length (gRegionCache st) < unat (gRegionCacheCapacity st)
         then Inr (mid\<lparr>gStats := (gStats st)\<lparr>allocs := allocs (gStats st) + 1\<rparr>\<rparr>, choice)
         else (case writeback mid r of
                 Inl e \<Rightarrow> Inl e
               | Inr w \<Rightarrow> Inr (w\<lparr>gStats := (gStats w)\<lparr>allocs := allocs (gStats w) + 1\<rparr>\<rparr>, choice)))"
  using assms
  by (cases st)
     (simp add: fsalloc_def sys_mmap_def cacheRegion_def push_back_def set_info_def log_def
        Let_def ucast_32_64_eq_0 less_Suc_eq_le [symmetric])

text \<open>
  C7. For a size that is not 0 and an address that \<^verbatim>\<open>mmap\<close> returned: when the queue is
  shorter than the capacity, \<^verbatim>\<open>fsalloc\<close> returns the address, the table has the entry
  (no key, the size, clean, resident) for it, the address is at the tail of the queue,
  \<open>allocs\<close> is one more, the region is mapped without access. When the queue is at
  capacity, \<^verbatim>\<open>fsalloc\<close> is \<^verbatim>\<open>writeback\<close> run on the state with the new entry and the new
  address at the tail, followed by the increment of \<open>allocs\<close>; an error of \<^verbatim>\<open>writeback\<close>
  is the error of \<^verbatim>\<open>fsalloc\<close>. The victim is the head of the queue with the new address
  appended, and its entry is the one the table has for it then, the zero entry that
  \<^verbatim>\<open>gAllocations[addr]\<close> inserts when the table has none. When the system calls of the
  eviction succeed (the victim is mapped unless its aligned size is 0; its record is in
  the database when it is dirty and has a key; it is readable when it is dirty and its
  aligned size wrapped to 0), \<^verbatim>\<open>fsalloc\<close> returns the address, the queue is the rest,
  the new entry is in the table, the entry of the victim is clean and not resident,
  \<open>allocs\<close> is one more and one of \<open>writebacks\<close> and \<open>cache_hits\<close> is one more.
\<close>

theorem fsalloc_admits:
  assumes "sz \<noteq> 0" and "choice \<noteq> MAP_FAILED"
  shows "(length (gRegionCache st) < unat (gRegionCacheCapacity st) \<longrightarrow>
            (\<exists>st'. fsalloc st sz choice r = Inr (st', choice)
               \<and> gAllocations st' = (gAllocations st)
                    (choice \<mapsto> \<lparr>rid = invalid_handle, size = sz, dirty = False, cached = True\<rparr>)
               \<and> gRegionCache st' = gRegionCache st @ [choice]
               \<and> gStats st' = (gStats st)\<lparr>allocs := allocs (gStats st) + 1\<rparr>
               \<and> vm st' = (vm st)(choice \<mapsto> PROT_NONE)
               \<and> gDatabase st' = gDatabase st
               \<and> trace st' = trace st @ [Mmap (ucast sz) choice]))
       \<and> (\<not> length (gRegionCache st) < unat (gRegionCacheCapacity st) \<longrightarrow>
            fsalloc st sz choice r =
              (case writeback
                      (st\<lparr>gAllocations := (gAllocations st)
                             (choice \<mapsto> \<lparr>rid = invalid_handle, size = sz, dirty = False, cached = True\<rparr>),
                          gRegionCache := gRegionCache st @ [choice],
                          vm := (vm st)(choice \<mapsto> PROT_NONE),
                          mem := zero_fill (mem st) choice
                                   ((ucast sz + ucast (kPagesize st) - 1) div ucast (kPagesize st)
                                      * ucast (kPagesize st)),
                          trace := trace st @ [Mmap (ucast sz) choice]\<rparr>) r of
                 Inl e \<Rightarrow> Inl e
               | Inr w \<Rightarrow> Inr (w\<lparr>gStats := (gStats w)\<lparr>allocs := allocs (gStats w) + 1\<rparr>\<rparr>, choice))
          \<and> (\<forall>victim q info.
               gRegionCache st @ [choice] = victim # q \<longrightarrow>
               info = (case ((gAllocations st)
                        (choice \<mapsto> \<lparr>rid = invalid_handle, size = sz, dirty = False, cached = True\<rparr>)) victim
                       of None \<Rightarrow> zeroInfo | Some i \<Rightarrow> i) \<longrightarrow>
               (sizealign (kPagesize st) (size info) \<noteq> 0 \<longrightarrow>
                  ((vm st)(choice \<mapsto> PROT_NONE)) victim \<noteq> None) \<longrightarrow>
               (dirty info \<and> valid info \<longrightarrow> gDatabase st (rid info) \<noteq> None) \<longrightarrow>
               (dirty info \<and> size info \<noteq> 0 \<and> sizealign (kPagesize st) (size info) = 0 \<longrightarrow>
                  readable (st\<lparr>vm := (vm st)(choice \<mapsto> PROT_NONE)\<rparr>) victim) \<longrightarrow>
               (\<exists>st'. fsalloc st sz choice r = Inr (st', choice)
                  \<and> gAllocations st' = ((gAllocations st)
                       (choice \<mapsto> \<lparr>rid = invalid_handle, size = sz, dirty = False, cached = True\<rparr>))
                       (victim \<mapsto> info\<lparr>rid := if dirty info \<and> \<not> valid info then r else rid info,
                                        dirty := False, cached := False\<rparr>)
                  \<and> gRegionCache st' = q
                  \<and> allocs (gStats st') = allocs (gStats st) + 1
                  \<and> frees (gStats st') = frees (gStats st)
                  \<and> writebacks (gStats st') = writebacks (gStats st) + (if dirty info then 1 else 0)
                  \<and> cache_hits (gStats st') = cache_hits (gStats st) + (if dirty info then 0 else 1))))"
proof (intro conjI impI allI)
  assume "length (gRegionCache st) < unat (gRegionCacheCapacity st)"
  then show "\<exists>st'. fsalloc st sz choice r = Inr (st', choice)
               \<and> gAllocations st' = (gAllocations st)
                    (choice \<mapsto> \<lparr>rid = invalid_handle, size = sz, dirty = False, cached = True\<rparr>)
               \<and> gRegionCache st' = gRegionCache st @ [choice]
               \<and> gStats st' = (gStats st)\<lparr>allocs := allocs (gStats st) + 1\<rparr>
               \<and> vm st' = (vm st)(choice \<mapsto> PROT_NONE)
               \<and> gDatabase st' = gDatabase st
               \<and> trace st' = trace st @ [Mmap (ucast sz) choice]"
    by (simp add: fsalloc_eq [OF assms] Let_def emptyInfo_def)
next
  assume "\<not> length (gRegionCache st) < unat (gRegionCacheCapacity st)"
  then show "fsalloc st sz choice r =
              (case writeback
                      (st\<lparr>gAllocations := (gAllocations st)
                             (choice \<mapsto> \<lparr>rid = invalid_handle, size = sz, dirty = False, cached = True\<rparr>),
                          gRegionCache := gRegionCache st @ [choice],
                          vm := (vm st)(choice \<mapsto> PROT_NONE),
                          mem := zero_fill (mem st) choice
                                   ((ucast sz + ucast (kPagesize st) - 1) div ucast (kPagesize st)
                                      * ucast (kPagesize st)),
                          trace := trace st @ [Mmap (ucast sz) choice]\<rparr>) r of
                 Inl e \<Rightarrow> Inl e
               | Inr w \<Rightarrow> Inr (w\<lparr>gStats := (gStats w)\<lparr>allocs := allocs (gStats w) + 1\<rparr>\<rparr>, choice))"
    by (simp add: fsalloc_eq [OF assms] Let_def emptyInfo_def)
next
  fix victim q info
  let ?new = "\<lparr>rid = invalid_handle, size = sz, dirty = False, cached = True\<rparr>"
  let ?pages = "(ucast sz + ucast (kPagesize st) - 1) div ucast (kPagesize st) * ucast (kPagesize st) :: addr"
  define mid where "mid = st\<lparr>gAllocations := (gAllocations st)(choice \<mapsto> emptyInfo sz),
                   gRegionCache := gRegionCache st @ [choice],
                   vm := (vm st)(choice \<mapsto> PROT_NONE),
                   mem := zero_fill (mem st) choice ?pages,
                   trace := trace st @ [Mmap (ucast sz) choice]\<rparr>"
  assume full: "\<not> length (gRegionCache st) < unat (gRegionCacheCapacity st)"
    and q: "gRegionCache st @ [choice] = victim # q"
    and t: "info = (case ((gAllocations st)(choice \<mapsto> ?new)) victim of
                      None \<Rightarrow> zeroInfo | Some i \<Rightarrow> i)"
    and m: "sizealign (kPagesize st) (size info) \<noteq> 0 \<longrightarrow> ((vm st)(choice \<mapsto> PROT_NONE)) victim \<noteq> None"
    and k: "dirty info \<and> valid info \<longrightarrow> gDatabase st (rid info) \<noteq> None"
    and a: "dirty info \<and> size info \<noteq> 0 \<and> sizealign (kPagesize st) (size info) = 0 \<longrightarrow>
              readable (st\<lparr>vm := (vm st)(choice \<mapsto> PROT_NONE)\<rparr>) victim"
  have q': "gRegionCache mid = victim # q" using q by (simp add: mid_def)
  have t': "(case gAllocations mid victim of None \<Rightarrow> zeroInfo | Some i \<Rightarrow> i) = info"
    using t by (simp add: mid_def emptyInfo_def)
  have m': "sizealign (kPagesize mid) (size info) \<noteq> 0 \<longrightarrow> vm mid victim \<noteq> None"
    using m by (simp add: mid_def)
  have k': "dirty info \<and> valid info \<longrightarrow> gDatabase mid (rid info) \<noteq> None"
    using k by (simp add: mid_def)
  have a': "dirty info \<and> size info \<noteq> 0 \<and> sizealign (kPagesize mid) (size info) = 0 \<longrightarrow>
              readable mid victim"
    using a by (simp add: mid_def readable_def)
  have run: "fsalloc st sz choice r =
      (case writeback mid r of Inl e \<Rightarrow> Inl e
       | Inr w \<Rightarrow> Inr (w\<lparr>gStats := (gStats w)\<lparr>allocs := allocs (gStats w) + 1\<rparr>\<rparr>, choice))"
    using full by (simp add: fsalloc_eq [OF assms] Let_def mid_def)
  show "\<exists>st'. fsalloc st sz choice r = Inr (st', choice)
                  \<and> gAllocations st' = ((gAllocations st)(choice \<mapsto> ?new))
                       (victim \<mapsto> info\<lparr>rid := if dirty info \<and> \<not> valid info then r else rid info,
                                        dirty := False, cached := False\<rparr>)
                  \<and> gRegionCache st' = q
                  \<and> allocs (gStats st') = allocs (gStats st) + 1
                  \<and> frees (gStats st') = frees (gStats st)
                  \<and> writebacks (gStats st') = writebacks (gStats st) + (if dirty info then 1 else 0)
                  \<and> cache_hits (gStats st') = cache_hits (gStats st) + (if dirty info then 0 else 1)"
    unfolding run writeback_pop [OF q' t' m' k' a']
    by (cases info) (simp add: Let_def mid_def emptyInfo_def)
qed

subsection \<open>The examples\<close>

lemma init_start:
  "init (start pagesize) path capacity old 0 (0, 0, 0, 0) = Inr (initial pagesize capacity old)"
  by (simp add: init_def db_init_def start_def initial_def)

lemma ex_fresh_run: "fsalloc (initial 4096 1 Returns) 4 0x1000 rid1 = Inr (ex_fresh, 0x1000)"
proof -
  have "\<not> isl (fsalloc (initial 4096 1 Returns) 4 0x1000 rid1)"
    "snd (projr (fsalloc (initial 4096 1 Returns) 4 0x1000 rid1)) = 0x1000"
    by code_simp+
  then show ?thesis
    by (metis ex_fresh_def prod.collapse sum.collapse(2))
qed

lemma ex_dirty_run: "handler ex_fresh SIGSEGV 0x1000 write_ctx rid1 = Inr ex_dirty"
proof -
  have "\<not> isl (handler ex_fresh SIGSEGV 0x1000 write_ctx rid1)" by code_simp
  then show ?thesis by (simp add: ex_dirty_def)
qed

lemma ex_reachable: "reachable ex_dirty"
  by (rule r_handler [OF r_fsalloc [OF r_init [OF init_start] ex_fresh_run] ex_dirty_run])

theorem queue_bounded_witness:
  "reachable ex_dirty \<and> gRegionCache ex_dirty = [0x1000] \<and> gRegionCacheCapacity ex_dirty = 1
   \<and> length (gRegionCache ex_dirty) \<le> unat (gRegionCacheCapacity ex_dirty)
   \<and> length (gRegionCache (push_back 0x2000 ex_dirty)) \<le> unat (gRegionCacheCapacity ex_dirty) + 1"
proof -
  have "gRegionCache ex_dirty = [0x1000]" "gRegionCacheCapacity ex_dirty = 1" by code_simp+
  then show ?thesis using queue_bounded [OF ex_reachable, of "0x2000"] ex_reachable by simp
qed

theorem fsalloc_admits_witness:
  "(\<exists>st'. fsalloc (initial 4096 1 Returns) 4 0x1000 rid1 = Inr (st', 0x1000)
      \<and> gAllocations st' 0x1000 = Some \<lparr>rid = invalid_handle, size = 4, dirty = False, cached = True\<rparr>
      \<and> gRegionCache st' = [0x1000] \<and> allocs (gStats st') = 1)
   \<and> (\<exists>st'. fsalloc ex_dirty 8 0x2000 rid1 = Inr (st', 0x2000)
      \<and> gAllocations st' 0x2000 = Some \<lparr>rid = invalid_handle, size = 8, dirty = False, cached = True\<rparr>
      \<and> gAllocations st' 0x1000 = Some \<lparr>rid = rid1, size = 4, dirty = False, cached = False\<rparr>
      \<and> gRegionCache st' = [0x2000] \<and> allocs (gStats st') = 2 \<and> writebacks (gStats st') = 1)
   \<and> (\<exists>st'. fsalloc ex_freed 8 0x2000 rid1 = Inr (st', 0x2000)
      \<and> gAllocations st' 0x2000 = Some \<lparr>rid = invalid_handle, size = 8, dirty = False, cached = True\<rparr>
      \<and> gAllocations st' 0x1000 = Some \<lparr>rid = \<lparr>pgno = 0, indx = 0\<rparr>, size = 0, dirty = False, cached = False\<rparr>
      \<and> gRegionCache st' = [0x2000] \<and> allocs (gStats st') = 2 \<and> cache_hits (gStats st') = 1)
   \<and> (\<exists>st'. fsalloc ex_back 8 0x5000 rid2 = Inr (st', 0x5000)
      \<and> gAllocations st' 0x5000 = Some \<lparr>rid = invalid_handle, size = 8, dirty = False, cached = True\<rparr>
      \<and> gAllocations st' 0x1000 = Some \<lparr>rid = rid1, size = 4, dirty = False, cached = False\<rparr>
      \<and> gRegionCache st' = [0x5000] \<and> allocs (gStats st') = 3 \<and> writebacks (gStats st') = 2)"
proof -
  have nz: "(4 :: u32) \<noteq> 0" "(8 :: u32) \<noteq> 0" by simp_all
  have nf: "(0x1000 :: addr) \<noteq> MAP_FAILED" "(0x2000 :: addr) \<noteq> MAP_FAILED"
    "(0x5000 :: addr) \<noteq> MAP_FAILED" by code_simp+
  have a: "length (gRegionCache (initial 4096 1 Returns)) < unat (gRegionCacheCapacity (initial 4096 1 Returns))"
    "gAllocations (initial 4096 1 Returns) = Map.empty" "gRegionCache (initial 4096 1 Returns) = []"
    "gStats (initial 4096 1 Returns) = \<lparr>allocs = 0, frees = 0, cache_hits = 0, writebacks = 0\<rparr>"
    by (simp_all add: initial_def start_def)
  have b: "\<not> length (gRegionCache ex_dirty) < unat (gRegionCacheCapacity ex_dirty)"
    "gRegionCache ex_dirty @ [0x2000] = 0x1000 # [0x2000]"
    "\<lparr>rid = invalid_handle, size = 4, dirty = True, cached = True\<rparr>
       = (case ((gAllocations ex_dirty)
            (0x2000 \<mapsto> \<lparr>rid = invalid_handle, size = 8, dirty = False, cached = True\<rparr>)) 0x1000
          of None \<Rightarrow> zeroInfo | Some i \<Rightarrow> i)"
    "((vm ex_dirty)(0x2000 \<mapsto> PROT_NONE)) 0x1000 \<noteq> None"
    "allocs (gStats ex_dirty) = 1" "writebacks (gStats ex_dirty) = 0"
    "sizealign (kPagesize ex_dirty) 4 \<noteq> 0"
    by code_simp+
  have c: "\<not> length (gRegionCache ex_freed) < unat (gRegionCacheCapacity ex_freed)"
    "gRegionCache ex_freed @ [0x2000] = 0x1000 # [0x2000]"
    "\<lparr>rid = \<lparr>pgno = 0, indx = 0\<rparr>, size = 0, dirty = False, cached = False\<rparr>
       = (case ((gAllocations ex_freed)
            (0x2000 \<mapsto> \<lparr>rid = invalid_handle, size = 8, dirty = False, cached = True\<rparr>)) 0x1000
          of None \<Rightarrow> zeroInfo | Some i \<Rightarrow> i)"
    "allocs (gStats ex_freed) = 1" "cache_hits (gStats ex_freed) = 0"
    "sizealign (kPagesize ex_freed) 0 = 0"
    by code_simp+
  have d: "\<not> length (gRegionCache ex_back) < unat (gRegionCacheCapacity ex_back)"
    "gRegionCache ex_back @ [0x5000] = 0x1000 # [0x5000]"
    "\<lparr>rid = rid1, size = 4, dirty = True, cached = True\<rparr>
       = (case ((gAllocations ex_back)
            (0x5000 \<mapsto> \<lparr>rid = invalid_handle, size = 8, dirty = False, cached = True\<rparr>)) 0x1000
          of None \<Rightarrow> zeroInfo | Some i \<Rightarrow> i)"
    "((vm ex_back)(0x5000 \<mapsto> PROT_NONE)) 0x1000 \<noteq> None"
    "allocs (gStats ex_back) = 2" "writebacks (gStats ex_back) = 1"
    "sizealign (kPagesize ex_back) 4 \<noteq> 0"
    "gDatabase ex_back rid1 \<noteq> None"
    by code_simp+
  have v: "\<not> valid \<lparr>rid = invalid_handle, size = 4, dirty = True, cached = True\<rparr>"
    "valid \<lparr>rid = rid1, size = 4, dirty = True, cached = True\<rparr>"
    by (simp_all add: valid_def rid1_def invalid_handle_def)
  from fsalloc_admits [OF nz(1) nf(1), of "initial 4096 1 Returns" rid1] a
  have 1: "\<exists>st'. fsalloc (initial 4096 1 Returns) 4 0x1000 rid1 = Inr (st', 0x1000)
      \<and> gAllocations st' 0x1000 = Some \<lparr>rid = invalid_handle, size = 4, dirty = False, cached = True\<rparr>
      \<and> gRegionCache st' = [0x1000] \<and> allocs (gStats st') = 1"
    by auto
  from fsalloc_admits [OF nz(2) nf(2), of ex_dirty rid1] b(1)
  have "\<forall>victim q info.
               gRegionCache ex_dirty @ [0x2000] = victim # q \<longrightarrow>
               info = (case ((gAllocations ex_dirty)
                        (0x2000 \<mapsto> \<lparr>rid = invalid_handle, size = 8, dirty = False, cached = True\<rparr>)) victim
                       of None \<Rightarrow> zeroInfo | Some i \<Rightarrow> i) \<longrightarrow>
               (sizealign (kPagesize ex_dirty) (size info) \<noteq> 0 \<longrightarrow>
                  ((vm ex_dirty)(0x2000 \<mapsto> PROT_NONE)) victim \<noteq> None) \<longrightarrow>
               (dirty info \<and> valid info \<longrightarrow> gDatabase ex_dirty (rid info) \<noteq> None) \<longrightarrow>
               (dirty info \<and> size info \<noteq> 0 \<and> sizealign (kPagesize ex_dirty) (size info) = 0 \<longrightarrow>
                  readable (ex_dirty\<lparr>vm := (vm ex_dirty)(0x2000 \<mapsto> PROT_NONE)\<rparr>) victim) \<longrightarrow>
               (\<exists>st'. fsalloc ex_dirty 8 0x2000 rid1 = Inr (st', 0x2000)
                  \<and> gAllocations st' = ((gAllocations ex_dirty)
                       (0x2000 \<mapsto> \<lparr>rid = invalid_handle, size = 8, dirty = False, cached = True\<rparr>))
                       (victim \<mapsto> info\<lparr>rid := if dirty info \<and> \<not> valid info then rid1 else rid info,
                                        dirty := False, cached := False\<rparr>)
                  \<and> gRegionCache st' = q
                  \<and> allocs (gStats st') = allocs (gStats ex_dirty) + 1
                  \<and> frees (gStats st') = frees (gStats ex_dirty)
                  \<and> writebacks (gStats st') = writebacks (gStats ex_dirty) + (if dirty info then 1 else 0)
                  \<and> cache_hits (gStats st') = cache_hits (gStats ex_dirty) + (if dirty info then 0 else 1))"
    by blast
  from this [rule_format, OF b(2) b(3)] v(1) b(4,5,6,7)
  have 2: "\<exists>st'. fsalloc ex_dirty 8 0x2000 rid1 = Inr (st', 0x2000)
      \<and> gAllocations st' 0x2000 = Some \<lparr>rid = invalid_handle, size = 8, dirty = False, cached = True\<rparr>
      \<and> gAllocations st' 0x1000 = Some \<lparr>rid = rid1, size = 4, dirty = False, cached = False\<rparr>
      \<and> gRegionCache st' = [0x2000] \<and> allocs (gStats st') = 2 \<and> writebacks (gStats st') = 1"
    by auto
  from fsalloc_admits [OF nz(2) nf(2), of ex_freed rid1] c(1)
  have "\<forall>victim q info.
               gRegionCache ex_freed @ [0x2000] = victim # q \<longrightarrow>
               info = (case ((gAllocations ex_freed)
                        (0x2000 \<mapsto> \<lparr>rid = invalid_handle, size = 8, dirty = False, cached = True\<rparr>)) victim
                       of None \<Rightarrow> zeroInfo | Some i \<Rightarrow> i) \<longrightarrow>
               (sizealign (kPagesize ex_freed) (size info) \<noteq> 0 \<longrightarrow>
                  ((vm ex_freed)(0x2000 \<mapsto> PROT_NONE)) victim \<noteq> None) \<longrightarrow>
               (dirty info \<and> valid info \<longrightarrow> gDatabase ex_freed (rid info) \<noteq> None) \<longrightarrow>
               (dirty info \<and> size info \<noteq> 0 \<and> sizealign (kPagesize ex_freed) (size info) = 0 \<longrightarrow>
                  readable (ex_freed\<lparr>vm := (vm ex_freed)(0x2000 \<mapsto> PROT_NONE)\<rparr>) victim) \<longrightarrow>
               (\<exists>st'. fsalloc ex_freed 8 0x2000 rid1 = Inr (st', 0x2000)
                  \<and> gAllocations st' = ((gAllocations ex_freed)
                       (0x2000 \<mapsto> \<lparr>rid = invalid_handle, size = 8, dirty = False, cached = True\<rparr>))
                       (victim \<mapsto> info\<lparr>rid := if dirty info \<and> \<not> valid info then rid1 else rid info,
                                        dirty := False, cached := False\<rparr>)
                  \<and> gRegionCache st' = q
                  \<and> allocs (gStats st') = allocs (gStats ex_freed) + 1
                  \<and> frees (gStats st') = frees (gStats ex_freed)
                  \<and> writebacks (gStats st') = writebacks (gStats ex_freed) + (if dirty info then 1 else 0)
                  \<and> cache_hits (gStats st') = cache_hits (gStats ex_freed) + (if dirty info then 0 else 1))"
    by blast
  from this [rule_format, OF c(2) c(3)] c(4,5,6)
  have 3: "\<exists>st'. fsalloc ex_freed 8 0x2000 rid1 = Inr (st', 0x2000)
      \<and> gAllocations st' 0x2000 = Some \<lparr>rid = invalid_handle, size = 8, dirty = False, cached = True\<rparr>
      \<and> gAllocations st' 0x1000 = Some \<lparr>rid = \<lparr>pgno = 0, indx = 0\<rparr>, size = 0, dirty = False, cached = False\<rparr>
      \<and> gRegionCache st' = [0x2000] \<and> allocs (gStats st') = 2 \<and> cache_hits (gStats st') = 1"
    by auto
  from fsalloc_admits [OF nz(2) nf(3), of ex_back rid2] d(1)
  have "\<forall>victim q info.
               gRegionCache ex_back @ [0x5000] = victim # q \<longrightarrow>
               info = (case ((gAllocations ex_back)
                        (0x5000 \<mapsto> \<lparr>rid = invalid_handle, size = 8, dirty = False, cached = True\<rparr>)) victim
                       of None \<Rightarrow> zeroInfo | Some i \<Rightarrow> i) \<longrightarrow>
               (sizealign (kPagesize ex_back) (size info) \<noteq> 0 \<longrightarrow>
                  ((vm ex_back)(0x5000 \<mapsto> PROT_NONE)) victim \<noteq> None) \<longrightarrow>
               (dirty info \<and> valid info \<longrightarrow> gDatabase ex_back (rid info) \<noteq> None) \<longrightarrow>
               (dirty info \<and> size info \<noteq> 0 \<and> sizealign (kPagesize ex_back) (size info) = 0 \<longrightarrow>
                  readable (ex_back\<lparr>vm := (vm ex_back)(0x5000 \<mapsto> PROT_NONE)\<rparr>) victim) \<longrightarrow>
               (\<exists>st'. fsalloc ex_back 8 0x5000 rid2 = Inr (st', 0x5000)
                  \<and> gAllocations st' = ((gAllocations ex_back)
                       (0x5000 \<mapsto> \<lparr>rid = invalid_handle, size = 8, dirty = False, cached = True\<rparr>))
                       (victim \<mapsto> info\<lparr>rid := if dirty info \<and> \<not> valid info then rid2 else rid info,
                                        dirty := False, cached := False\<rparr>)
                  \<and> gRegionCache st' = q
                  \<and> allocs (gStats st') = allocs (gStats ex_back) + 1
                  \<and> frees (gStats st') = frees (gStats ex_back)
                  \<and> writebacks (gStats st') = writebacks (gStats ex_back) + (if dirty info then 1 else 0)
                  \<and> cache_hits (gStats st') = cache_hits (gStats ex_back) + (if dirty info then 0 else 1))"
    by blast
  from this [rule_format, OF d(2) d(3)] v(2) d(4,5,6,7,8)
  have 4: "\<exists>st'. fsalloc ex_back 8 0x5000 rid2 = Inr (st', 0x5000)
      \<and> gAllocations st' 0x5000 = Some \<lparr>rid = invalid_handle, size = 8, dirty = False, cached = True\<rparr>
      \<and> gAllocations st' 0x1000 = Some \<lparr>rid = rid1, size = 4, dirty = False, cached = False\<rparr>
      \<and> gRegionCache st' = [0x5000] \<and> allocs (gStats st') = 3 \<and> writebacks (gStats st') = 2"
    by auto
  from 1 2 3 4 show ?thesis by blast
qed

subsection \<open>Where the code departs from the specification\<close>

text \<open>
  C1 does not hold of the code. When the head of the queue has no entry in the
  allocation table (here: the region at \<open>0x1000\<close> was allocated and released, which
  leaves its address in the queue), \<^verbatim>\<open>writeback\<close> pops the address, but
  \<^verbatim>\<open>gAllocations[addr]\<close> inserts a zero entry for it, \<^verbatim>\<open>forget\<close> calls \<^verbatim>\<open>madvise\<close> and
  \<^verbatim>\<open>mprotect\<close> with length 0, and \<open>cache_hits\<close> goes from 0 to 1.
\<close>

theorem writeback_stale_head:
  "gRegionCache ex_freed = [0x1000] \<and> gAllocations ex_freed 0x1000 = None
   \<and> cache_hits (gStats ex_freed) = 0
   \<and> map_sum id (\<lambda>s. (gRegionCache s, gAllocations s 0x1000, cache_hits (gStats s),
                        drop (length (trace ex_freed)) (trace s)))
        (writeback ex_freed rid1)
     = Inr ([], Some \<lparr>rid = \<lparr>pgno = 0, indx = 0\<rparr>, size = 0, dirty = False, cached = False\<rparr>, 1,
            [Madvise 0x1000 0, Mprotect 0x1000 0 PROT_NONE])"
  by code_simp

text \<open>
  C2 does not hold of the code. The region at \<open>0x1000\<close> has 4 bytes, clean and resident,
  protection none. A write fault at \<open>0x1004\<close>, the first byte after the region, passes
  \<^verbatim>\<open>verify\<close> (\<^verbatim>\<open>dist <= size\<close>): the default handler is not called, the region becomes
  dirty and writable. A read fault at \<open>0x1100\<close> fails \<^verbatim>\<open>verify\<close>: the default handler is
  called, and when it returns the handler goes on: it admits the region to the queue
  again, which evicts it (capacity 1): \<open>cached\<close> becomes false, \<open>cache_hits\<close> becomes 1 and
  the protection becomes \<^verbatim>\<open>PROT_READ\<close>.
\<close>

theorem handler_outside_region:
  "gAllocations ex_fresh 0x1000
     = Some \<lparr>rid = invalid_handle, size = 4, dirty = False, cached = True\<rparr>
   \<and> vm ex_fresh 0x1000 = Some PROT_NONE \<and> cache_hits (gStats ex_fresh) = 0
   \<and> pagealign (kPagesize ex_fresh) 0x1004 = 0x1000
   \<and> pagealign (kPagesize ex_fresh) 0x1100 = 0x1000
   \<and> map_sum id (\<lambda>s. (gAllocations s 0x1000, vm s 0x1000, cache_hits (gStats s),
                        drop (length (trace ex_fresh)) (trace s)))
        (handler ex_fresh SIGSEGV 0x1004 write_ctx rid1)
     = Inr (Some \<lparr>rid = invalid_handle, size = 4, dirty = True, cached = True\<rparr>,
            Some (PROT_READ OR PROT_WRITE), 0,
            [Mprotect 0x1000 0x1000 (PROT_READ OR PROT_WRITE)])
   \<and> map_sum id (\<lambda>s. (gAllocations s 0x1000, vm s 0x1000, cache_hits (gStats s),
                        drop (length (trace ex_fresh)) (trace s)))
        (handler ex_fresh SIGSEGV 0x1100 read_ctx rid1)
     = Inr (Some \<lparr>rid = invalid_handle, size = 4, dirty = False, cached = False\<rparr>,
            Some PROT_READ, 1,
            [DefaultHandler SIGSEGV, Madvise 0x1000 0x1000, Mprotect 0x1000 0x1000 PROT_NONE,
             Mprotect 0x1000 0x1000 PROT_READ])"
  by code_simp


text \<open>
  C6 does not hold of the code, for two reasons. (i) The region of \<open>0xffffffff\<close> bytes at
  \<open>0x7f0000000000\<close> is resident and clean; on a write fault at its first byte the handler
  sets \<open>dirty\<close>, but \<^verbatim>\<open>sizealign\<close> wraps to 0 and \<^verbatim>\<open>mprotect\<close> is called with length 0: the
  protection stays \<^verbatim>\<open>PROT_NONE\<close>. (ii) The handler looks a region up by the page of the
  faulting address, and the table is keyed by base addresses. The region of 8192 bytes
  at \<open>0x3000\<close> is resident, clean and readable (after a read of its first byte); a write
  fault at \<open>0x4010\<close>, in its second page, finds no entry for \<open>0x4000\<close>: the handler calls
  the default handler and nothing else, \<open>dirty\<close> stays false and the protection stays
  \<^verbatim>\<open>PROT_READ\<close>. When the default handler is the one of the system, the process ends.
\<close>

theorem write_fault_not_promoted:
  "gAllocations ex_huge 0x7f0000000000
     = Some \<lparr>rid = invalid_handle, size = 0xffffffff, dirty = False, cached = True\<rparr>
   \<and> vm ex_huge 0x7f0000000000 = Some PROT_NONE
   \<and> map_sum id (\<lambda>s. (gAllocations s 0x7f0000000000, vm s 0x7f0000000000,
                        drop (length (trace ex_huge)) (trace s)))
        (handler ex_huge SIGSEGV 0x7f0000000000 write_ctx rid1)
     = Inr (Some \<lparr>rid = invalid_handle, size = 0xffffffff, dirty = True, cached = True\<rparr>,
            Some PROT_NONE,
            [Mprotect 0x7f0000000000 0 (PROT_READ OR PROT_WRITE)])
   \<and> map_sum id (\<lambda>s. (gAllocations s 0x3000, vm s 0x3000))
        (handler (ex_big Returns) SIGSEGV 0x3000 read_ctx rid1)
     = Inr (Some \<lparr>rid = invalid_handle, size = 8192, dirty = False, cached = True\<rparr>,
            Some PROT_READ)
   \<and> pagealign (kPagesize (ex_big_read Returns)) 0x4010 = 0x4000
   \<and> gAllocations (ex_big_read Returns) 0x4000 = None
   \<and> map_sum id (\<lambda>s. (gAllocations s 0x3000, vm s 0x3000, gRegionCache s = gRegionCache (ex_big_read Returns),
                        gStats s = gStats (ex_big_read Returns),
                        drop (length (trace (ex_big_read Returns))) (trace s)))
        (handler (ex_big_read Returns) SIGSEGV 0x4010 write_ctx rid1)
     = Inr (Some \<lparr>rid = invalid_handle, size = 8192, dirty = False, cached = True\<rparr>,
            Some PROT_READ, True, True, [DefaultHandler SIGSEGV])
   \<and> map_sum id (\<lambda>s. ()) (handler (ex_big_read Terminates) SIGSEGV 0x4010 write_ctx rid1)
     = Inl ProcessTerminated"
  by code_simp

text \<open>
  C8 does not hold of the code: for \<open>N = 1\<close> and capacity 2, the allocation of 8192 bytes
  returns \<open>0x3000\<close>, mapped without access, and the write that follows, to the byte at
  offset \<open>0x1010\<close> of the region, faults at \<open>0x4010\<close>. The handler finds no entry for the
  page \<open>0x4000\<close> and calls the default handler. With the default handler of the system
  the process ends there. With a default handler that returns, the handler returns
  with the region still without access and not dirty, so the write faults again, and
  again: the write never completes. In neither case is there a state after the write
  in which the queue has \<open>min(1, 2) = 1\<close> element.
\<close>

theorem write_beyond_first_page:
  "map_sum id (\<lambda>(s, a). (a, gRegionCache s, gAllocations s 0x3000, vm s 0x3000, gStats s))
        (fsalloc (initial 4096 2 Terminates) 8192 0x3000 rid1)
     = Inr (0x3000, [0x3000],
            Some \<lparr>rid = invalid_handle, size = 8192, dirty = False, cached = True\<rparr>,
            Some PROT_NONE, \<lparr>allocs = 1, frees = 0, cache_hits = 0, writebacks = 0\<rparr>)
   \<and> pagealign (kPagesize (ex_big Terminates)) 0x4010 = 0x4000
   \<and> gAllocations (ex_big Terminates) 0x4000 = None
   \<and> map_sum id (\<lambda>s. ()) (handler (ex_big Terminates) SIGSEGV 0x4010 write_ctx rid1)
     = Inl ProcessTerminated
   \<and> map_sum id (\<lambda>s. (gRegionCache s, gAllocations s 0x3000, vm s 0x3000,
                        drop (length (trace (ex_big Returns))) (trace s)))
        (handler (ex_big Returns) SIGSEGV 0x4010 write_ctx rid1)
     = Inr ([0x3000],
            Some \<lparr>rid = invalid_handle, size = 8192, dirty = False, cached = True\<rparr>,
            Some PROT_NONE, [DefaultHandler SIGSEGV])"
  by code_simp

end
